theory Spec2Isabelle
  imports Main "HOL-Library.AList" "HOL-Library.Word"
begin

section \<open>Values, errors and results\<close>

text \<open>
  The data-access layer of \<^verbatim>\<open>src/dao/dao_api.go\<close> passes untyped Go values
  (\<^verbatim>\<open>interface{}\<close>) to the mgo driver and dispatches on their dynamic type. A value
  is modelled with its dynamic type as the constructor: \<open>VNil\<close> is the nil interface,
  \<open>VStr\<close> a Go \<^verbatim>\<open>string\<close>, \<open>VObjectId\<close> a \<^verbatim>\<open>bson.ObjectId\<close> (a named string type
  holding twelve raw bytes), \<open>VMap\<close> a \<^verbatim>\<open>map[string]interface{}\<close>, \<open>VBsonM\<close> a
  \<^verbatim>\<open>bson.M\<close>, \<open>VBsonD\<close> a \<^verbatim>\<open>bson.D\<close>, \<open>VList\<close> a slice, \<open>VDBRef\<close> an
  \<^verbatim>\<open>mgo.DBRef\<close> (Collection, Id, Database) and \<open>VChange\<close> an \<^verbatim>\<open>mgo.Change\<close>
  (Update, Upsert, Remove, ReturnNew). A Go map is an association list read through
  \<open>map_of\<close>; \<^verbatim>\<open>delete(m, k)\<close> is \<open>AList.delete\<close> and \<^verbatim>\<open>m[k] = v\<close> is
  \<open>AList.update\<close>.
\<close>

datatype val =
    VNil
  | VBool bool
  | VInt int
  | VStr string
  | VObjectId string
  | VMap "(string \<times> val) list"
  | VBsonM "(string \<times> val) list"
  | VBsonD "(string \<times> val) list"
  | VList "val list"
  | VDBRef string val string
  | VChange val bool bool bool

type_synonym gomap = "(string \<times> val) list"

text \<open>The kinds of \<^verbatim>\<open>reflect.Kind\<close> that the values above can have.\<close>

datatype kind = KBool | KInt | KString | KMap | KSlice | KStruct

text \<open>
  \<^verbatim>\<open>reflect.TypeOf(v).Kind()\<close>: \<^verbatim>\<open>reflect.TypeOf\<close> of the nil interface is the nil
  \<^verbatim>\<open>reflect.Type\<close>, on which the call of \<^verbatim>\<open>Kind\<close> panics; that is the result
  \<open>None\<close>. A \<^verbatim>\<open>bson.ObjectId\<close> has kind String although its type is not
  \<^verbatim>\<open>string\<close>.
\<close>

fun TypeOf_Kind :: "val \<Rightarrow> kind option" where
  "TypeOf_Kind VNil = None"
| "TypeOf_Kind (VBool _) = Some KBool"
| "TypeOf_Kind (VInt _) = Some KInt"
| "TypeOf_Kind (VStr _) = Some KString"
| "TypeOf_Kind (VObjectId _) = Some KString"
| "TypeOf_Kind (VMap _) = Some KMap"
| "TypeOf_Kind (VBsonM _) = Some KMap"
| "TypeOf_Kind (VBsonD _) = Some KSlice"
| "TypeOf_Kind (VList _) = Some KSlice"
| "TypeOf_Kind (VDBRef _ _ _) = Some KStruct"
| "TypeOf_Kind (VChange _ _ _ _) = Some KStruct"

text \<open>
  The error values of the package (\<open>errNull\<close>, \<open>errUnSupportType\<close>), the driver's
  \<^verbatim>\<open>mgo.ErrNotFound\<close>, an error built by \<^verbatim>\<open>fmt.Errorf\<close> (format string and
  arguments), and any other failure reported by the driver.
\<close>

datatype error =
    errNull
  | errUnSupportType
  | ErrNotFound
  | Errorf string "val list"
  | DriverError string

text \<open>A call either returns or panics (a Go runtime panic unwinds the caller).\<close>

datatype 'a res = Return 'a | Panic string

section \<open>Identifiers and names\<close>

text \<open>
  \<^verbatim>\<open>bson.IsObjectIdHex\<close> and \<^verbatim>\<open>bson.ObjectIdHex\<close> of the driver: a valid
  identifier is a string of 24 hexadecimal digits, decoded by \<^verbatim>\<open>hex.DecodeString\<close> to
  twelve bytes; \<^verbatim>\<open>ObjectIdHex\<close> panics on anything else.
\<close>

definition fromHexChar :: "char \<Rightarrow> nat option" where
  "fromHexChar c =
     map_of (zip ''0123456789abcdefABCDEF''
                 [0, 1, 2, 3, 4, 5, 6, 7, 8, 9, 10, 11, 12, 13, 14, 15, 10, 11, 12, 13, 14, 15]) c"

fun hex_DecodeString :: "string \<Rightarrow> string option" where
  "hex_DecodeString [] = Some []"
| "hex_DecodeString [c] = None"
| "hex_DecodeString (a # b # cs) =
     (case fromHexChar a of
        None \<Rightarrow> None
      | Some x \<Rightarrow>
          (case fromHexChar b of
             None \<Rightarrow> None
           | Some y \<Rightarrow>
               (case hex_DecodeString cs of
                  None \<Rightarrow> None
                | Some d \<Rightarrow> Some (char_of (16 * x + y) # d))))"

definition IsObjectIdHex :: "string \<Rightarrow> bool" where
  "IsObjectIdHex s =
     (if length s \<noteq> 24 then False else hex_DecodeString s \<noteq> None)"

definition ObjectIdHex :: "string \<Rightarrow> string res" where
  "ObjectIdHex s =
     (case hex_DecodeString s of
        None \<Rightarrow> Panic ''invalid input to ObjectIdHex''
      | Some d \<Rightarrow>
          if length d \<noteq> 12 then Panic ''invalid input to ObjectIdHex'' else Return d)"

text \<open>
  \<^verbatim>\<open>strings.ToLower\<close>, on the ASCII letters (a Go type name made of other letters is
  outside this model: its bytes are left as they are).
\<close>

definition lower_char :: "char \<Rightarrow> char" where
  "lower_char c =
     (case map_of (zip ''ABCDEFGHIJKLMNOPQRSTUVWXYZ'' ''abcdefghijklmnopqrstuvwxyz'') c of
        None \<Rightarrow> c
      | Some l \<Rightarrow> l)"

definition ToLower :: "string \<Rightarrow> string" where
  "ToLower s = map lower_char s"

section \<open>Caller-owned maps\<close>

text \<open>
  A Go map is a reference: \<^verbatim>\<open>DBRef\<close>, \<^verbatim>\<open>DBRefId\<close> and \<^verbatim>\<open>UpdateDoc\<close> change the
  map object their caller passed in. The maps that callers own live in a store, from
  addresses to contents, and such a function takes the address and returns the store it
  leaves behind. A nil map reads as the empty map, and none of the three functions
  writes to a map in which the lookup before the write missed, so a nil map is an
  address that holds \<open>[]\<close>.
\<close>

type_synonym heap = "nat \<Rightarrow> gomap"

section \<open>Reference resolution\<close>

text \<open>
  \<^verbatim>\<open>DBRef(field, t, m)\<close>. \<^verbatim>\<open>inflector.Pluralize\<close> is a third-party function and is a
  parameter. The type descriptor \<open>t\<close> is the name \<^verbatim>\<open>t.Name()\<close> returns, or \<open>None\<close>
  for the nil \<^verbatim>\<open>reflect.Type\<close>, on which \<^verbatim>\<open>t.Name()\<close> panics. The type assertion
  \<^verbatim>\<open>id.(string)\<close> panics on a value whose type is not \<^verbatim>\<open>string\<close>.
\<close>

definition DBRef ::
  "(string \<Rightarrow> string) \<Rightarrow> string \<Rightarrow> string option \<Rightarrow> nat \<Rightarrow> heap \<Rightarrow> error option res \<times> heap" where
  "DBRef Pluralize field t m h =
     (case map_of (h m) field of
        None \<Rightarrow> (Return None, h)
      | Some value \<Rightarrow>
          (case value of
             VMap refer \<Rightarrow>
               (case map_of refer ''id'' of
                  None \<Rightarrow>
                    (Return (Some (Errorf ''%s must be an object and contain a id field'' [VStr field])), h)
                | Some id' \<Rightarrow>
                    let h1 = h(m := AList.delete field (h m)) in
                    (case TypeOf_Kind id' of
                       None \<Rightarrow> (Panic ''invalid memory address or nil pointer dereference'', h1)
                     | Some k \<Rightarrow>
                         if k \<noteq> KString
                         then (Return (Some (Errorf ''id format error [%v]'' [id'])), h1)
                         else
                           (case id' of
                              VStr s \<Rightarrow>
                                if \<not> IsObjectIdHex s
                                then (Return (Some (Errorf ''id format error [%v]'' [id'])), h1)
                                else
                                  (case ObjectIdHex s of
                                     Panic p \<Rightarrow> (Panic p, h1)
                                   | Return oid \<Rightarrow>
                                       (case t of
                                          None \<Rightarrow>
                                            (Panic ''invalid memory address or nil pointer dereference'', h1)
                                        | Some name \<Rightarrow>
                                            (Return None,
                                             h1(m := AList.update (field @ ''_ref'')
                                                       (VDBRef (ToLower (Pluralize name)) (VObjectId oid) '''')
                                                       (h1 m)))))
                            | _ \<Rightarrow> (Panic ''interface conversion: interface {} is not string'', h1))))
           | _ \<Rightarrow> (Return (Some (Errorf ''invalid param given [%s]'' [VStr field])), h)))"

text \<open>\<^verbatim>\<open>DBRefId(field, m)\<close>: the same steps, writing the bare identifier.\<close>

definition DBRefId :: "string \<Rightarrow> nat \<Rightarrow> heap \<Rightarrow> error option res \<times> heap" where
  "DBRefId field m h =
     (case map_of (h m) field of
        None \<Rightarrow> (Return None, h)
      | Some value \<Rightarrow>
          (case value of
             VMap refer \<Rightarrow>
               (case map_of refer ''id'' of
                  None \<Rightarrow>
                    (Return (Some (Errorf ''%s must be an object and contain a id field'' [VStr field])), h)
                | Some id' \<Rightarrow>
                    let h1 = h(m := AList.delete field (h m)) in
                    (case TypeOf_Kind id' of
                       None \<Rightarrow> (Panic ''invalid memory address or nil pointer dereference'', h1)
                     | Some k \<Rightarrow>
                         if k \<noteq> KString
                         then (Return (Some (Errorf ''id format error [%v]'' [id'])), h1)
                         else
                           (case id' of
                              VStr s \<Rightarrow>
                                if \<not> IsObjectIdHex s
                                then (Return (Some (Errorf ''id format error [%v]'' [id'])), h1)
                                else
                                  (case ObjectIdHex s of
                                     Panic p \<Rightarrow> (Panic p, h1)
                                   | Return oid \<Rightarrow>
                                       (Return None,
                                        h1(m := AList.update (field @ ''_ref.$id'') (VObjectId oid) (h1 m))))
                            | _ \<Rightarrow> (Panic ''interface conversion: interface {} is not string'', h1))))
           | _ \<Rightarrow> (Return (Some (Errorf ''invalid param given [%s]'' [VStr field])), h)))"

section \<open>The driver\<close>

text \<open>
  The mgo driver is an external collaborator. What the layer asks of it is kept as data:
  an index specification (\<^verbatim>\<open>mgo.Index\<close>, the fields the layer sets), a query as
  \<^verbatim>\<open>Find\<close>, \<^verbatim>\<open>Sort\<close>, \<^verbatim>\<open>Skip\<close> and \<^verbatim>\<open>Limit\<close> build it (none of them talks to
  the database), a paging descriptor (\<^verbatim>\<open>Page\<close>) and the summary of a change
  (\<^verbatim>\<open>mgo.ChangeInfo\<close>).
\<close>

record index =
  Key :: "string list"
  Unique :: bool
  DropDups :: bool
  Background :: bool
  Sparse :: bool

text \<open>
  Go's \<^verbatim>\<open>int\<close> is taken at 64 bits (\<^verbatim>\<open>Page.Offset\<close>, \<^verbatim>\<open>Page.Limit\<close> and the
  arguments of \<^verbatim>\<open>Skip\<close> and \<^verbatim>\<open>Limit\<close>); the driver keeps the skip and the limit of
  a query as \<^verbatim>\<open>int32\<close>.
\<close>

record mgo_Query =
  q_collection :: string
  q_selector :: val
  q_sort :: "string list"
  q_skip :: "32 word"
  q_limit :: "32 word"

record Page =
  Valid :: bool
  Offset :: "64 word"
  Limit :: "64 word"

record ChangeInfo =
  Updated :: int
  Removed :: int
  Matched :: int
  UpsertedId :: val

definition co_Find :: "string \<Rightarrow> val \<Rightarrow> mgo_Query" where
  "co_Find collection query =
     \<lparr>q_collection = collection, q_selector = query, q_sort = [], q_skip = 0, q_limit = 0\<rparr>"

text \<open>\<^verbatim>\<open>FindId(id)\<close> is \<^verbatim>\<open>Find(bson.D{{"_id", id}})\<close> in the driver.\<close>

definition co_FindId :: "string \<Rightarrow> val \<Rightarrow> mgo_Query" where
  "co_FindId collection id' = co_Find collection (VBsonD [(''_id'', id')])"

text \<open>
  \<^verbatim>\<open>Query.Sort\<close> of the driver reads every key: a key that starts with \<^verbatim>\<open>$\<close> and holds
  a colon after at least one more character and before its last one loses that prefix
  up to the colon, then a leading \<^verbatim>\<open>+\<close> or \<^verbatim>\<open>-\<close> is dropped, and the driver panics
  when the field name left is empty (the keys \<^verbatim>\<open>""\<close>, \<^verbatim>\<open>"+"\<close> and \<^verbatim>\<open>"-"\<close>, for
  instance). \<open>Sort_field\<close> is the field name of a key, \<open>None\<close> where the driver panics;
  \<open>q_sort\<close> keeps the keys as they were given.
\<close>

fun strings_Index :: "string \<Rightarrow> char \<Rightarrow> nat option" where
  "strings_Index [] c = None"
| "strings_Index (x # xs) c =
     (if x = c then Some 0
      else (case strings_Index xs c of None \<Rightarrow> None | Some i \<Rightarrow> Some (Suc i)))"

definition Sort_field :: "string \<Rightarrow> string option" where
  "Sort_field field =
     (if field = [] then None
      else
        let field1 =
              (if hd field = CHR ''$'' then
                 (case strings_Index field (CHR '':'') of
                    None \<Rightarrow> field
                  | Some c \<Rightarrow>
                      if c > 1 \<and> c < length field - 1 then drop (c + 1) field else field)
               else field);
            field2 =
              (if hd field1 = CHR ''+'' then tl field1
               else if hd field1 = CHR ''-'' then tl field1
               else field1)
        in if field2 = [] then None else Some field2)"

definition q_Sort :: "string list \<Rightarrow> mgo_Query \<Rightarrow> mgo_Query res" where
  "q_Sort sortFields q =
     (if list_all (\<lambda>field. Sort_field field \<noteq> None) sortFields
      then Return (q\<lparr>q_sort := sortFields\<rparr>)
      else Panic ''Sort: empty field name'')"

text \<open>
  \<^verbatim>\<open>Query.Skip(n)\<close> stores \<^verbatim>\<open>int32(n)\<close>, the low 32 bits of \<open>n\<close>.
  \<^verbatim>\<open>Query.Limit(n)\<close> stores as the greatest number of documents 1 for 1, the largest
  \<^verbatim>\<open>int32\<close> for the smallest one, \<^verbatim>\<open>int32(-n)\<close> for any other negative \<open>n\<close> and
  \<^verbatim>\<open>int32(n)\<close> otherwise (the batch size it sets as well is not part of the model).
\<close>

definition q_Skip :: "64 word \<Rightarrow> mgo_Query \<Rightarrow> mgo_Query" where
  "q_Skip n q = q\<lparr>q_skip := ucast n\<rparr>"

definition q_Limit :: "64 word \<Rightarrow> mgo_Query \<Rightarrow> mgo_Query" where
  "q_Limit n q =
     (if n = 1 then q\<lparr>q_limit := 1\<rparr>
      else if sint n = - 2147483648 then q\<lparr>q_limit := 2147483647\<rparr>
      else if sint n < 0 then q\<lparr>q_limit := ucast (- n)\<rparr>
      else q\<lparr>q_limit := ucast n\<rparr>)"

text \<open>
  A \<^verbatim>\<open>*mgo.Query\<close> in the hands of a caller: the query and whether the session it is
  bound to has been closed. The driver runs a query through its session, and on a closed
  session that panics.
\<close>

record QueryHandle =
  the_query :: mgo_Query
  session_closed :: bool

definition session_Close :: "QueryHandle \<Rightarrow> QueryHandle" where
  "session_Close h = h\<lparr>session_closed := True\<rparr>"

text \<open>
  The calls that reach the database, in the driver's own names. A driver is a record of
  functions on a world \<open>'w\<close> (the database, its blob store and the clock); every
  theorem that does not name a particular driver holds for all of them, failing ones
  included. \<^verbatim>\<open>Query.One\<close> and \<^verbatim>\<open>Query.All\<close> leave their result in the variable
  they are given and return the error, so both come back; \<^verbatim>\<open>GridFS.Create\<close> returns
  a file (a handle) or an error. \<^verbatim>\<open>Now\<close> is a function of package \<^verbatim>\<open>dao\<close> that
  is defined outside \<^verbatim>\<open>dao_api.go\<close>: it is a parameter as well, and each call
  reads the clock of the world. The \<^verbatim>\<open>Dao\<close> (session, database name and GridFS
  prefix) is represented by the driver; copying and closing the session is not a call
  on a collection and is left out.
\<close>

record 'w driver =
  co_EnsureIndex :: "string \<Rightarrow> index \<Rightarrow> 'w \<Rightarrow> error option \<times> 'w"
  co_Insert :: "string \<Rightarrow> val \<Rightarrow> 'w \<Rightarrow> error option \<times> 'w"
  q_Apply :: "mgo_Query \<Rightarrow> val \<Rightarrow> 'w \<Rightarrow> (ChangeInfo option \<times> error option) \<times> 'w"
  co_Upsert :: "string \<Rightarrow> gomap \<Rightarrow> val \<Rightarrow> 'w \<Rightarrow> (ChangeInfo option \<times> error option) \<times> 'w"
  co_UpsertId :: "string \<Rightarrow> string \<Rightarrow> val \<Rightarrow> 'w \<Rightarrow> (ChangeInfo option \<times> error option) \<times> 'w"
  co_Remove :: "string \<Rightarrow> gomap \<Rightarrow> 'w \<Rightarrow> error option \<times> 'w"
  co_RemoveId :: "string \<Rightarrow> string \<Rightarrow> 'w \<Rightarrow> error option \<times> 'w"
  co_Update :: "string \<Rightarrow> gomap \<Rightarrow> val \<Rightarrow> 'w \<Rightarrow> error option \<times> 'w"
  co_UpdateId :: "string \<Rightarrow> string \<Rightarrow> val \<Rightarrow> 'w \<Rightarrow> error option \<times> 'w"
  q_Count :: "mgo_Query \<Rightarrow> 'w \<Rightarrow> (int \<times> error option) \<times> 'w"
  q_One :: "mgo_Query \<Rightarrow> 'w \<Rightarrow> (val \<times> error option) \<times> 'w"
  q_All :: "mgo_Query \<Rightarrow> 'w \<Rightarrow> (val list \<times> error option) \<times> 'w"
  bson_NewObjectId :: "'w \<Rightarrow> string \<times> 'w"
  gfs_Create :: "string \<Rightarrow> 'w \<Rightarrow> (error + nat) \<times> 'w"
  fs_SetId :: "nat \<Rightarrow> string \<Rightarrow> 'w \<Rightarrow> unit \<times> 'w"
  fs_Write :: "nat \<Rightarrow> string \<Rightarrow> 'w \<Rightarrow> error option \<times> 'w"
  fs_Close :: "nat \<Rightarrow> 'w \<Rightarrow> error option \<times> 'w"
  dao_Now :: "'w \<Rightarrow> val \<times> 'w"

datatype call =
    EnsureIndexCall string index
  | InsertCall string val
  | ApplyCall mgo_Query val
  | UpsertCall string gomap val
  | UpsertIdCall string string val
  | RemoveCall string gomap
  | RemoveIdCall string string
  | UpdateCall string gomap val
  | UpdateIdCall string string val
  | CountCall mgo_Query
  | OneCall mgo_Query
  | AllCall mgo_Query
  | NewObjectIdCall
  | GridFSCreateCall string
  | SetIdCall nat string
  | WriteCall nat string
  | CloseCall nat

text \<open>
  The state an operation runs in: the world of the driver, the calls issued so far (a
  record of the effects, which no operation reads), and the maps owned by callers.
\<close>

record 'w state =
  db :: 'w
  trace :: "call list"
  maps :: heap

definition invoke :: "call \<Rightarrow> ('w \<Rightarrow> 'r \<times> 'w) \<Rightarrow> 'w state \<Rightarrow> 'r \<times> 'w state" where
  "invoke c f s = (case f (db s) of (r, w) \<Rightarrow> (r, s\<lparr>db := w, trace := trace s @ [c]\<rparr>))"

definition Now :: "'w driver \<Rightarrow> 'w state \<Rightarrow> val \<times> 'w state" where
  "Now d s = (case dao_Now d (db s) of (t, w) \<Rightarrow> (t, s\<lparr>db := w\<rparr>))"

text \<open>\<^verbatim>\<open>delete(m, k)\<close> on the map at address \<open>m\<close>.\<close>

definition delete_key :: "nat \<Rightarrow> string \<Rightarrow> 'w state \<Rightarrow> 'w state" where
  "delete_key m k s = s\<lparr>maps := (maps s)(m := AList.delete k (maps s m))\<rparr>"

section \<open>Create, upsert, remove, update\<close>

definition CreateDoc ::
  "'w driver \<Rightarrow> string \<Rightarrow> val \<Rightarrow> string list \<Rightarrow> 'w state \<Rightarrow> error option \<times> 'w state" where
  "CreateDoc d collection docs idxKeys s =
     (let idxKeys1 = (if length idxKeys = 0 then idxKeys @ [''-create_at''] else idxKeys);
          index = \<lparr>Key = idxKeys1, Unique = True, DropDups = True, Background = True, Sparse = True\<rparr>
      in case invoke (EnsureIndexCall collection index) (co_EnsureIndex d collection index) s of
           (Some err, s1) \<Rightarrow> (Some err, s1)
         | (None, s1) \<Rightarrow> invoke (InsertCall collection docs) (co_Insert d collection docs) s1)"

definition UpsertDoc ::
  "'w driver \<Rightarrow> string \<Rightarrow> val \<Rightarrow> val \<Rightarrow> 'w state \<Rightarrow> (ChangeInfo option \<times> error option) \<times> 'w state" where
  "UpsertDoc d collection selector update s =
     (if selector = VNil then ((None, Some errNull), s)
      else
        (case selector of
           VBsonM m \<Rightarrow>
             (case update of
                VChange _ _ _ _ \<Rightarrow>
                  invoke (ApplyCall (co_Find collection (VBsonM m)) update)
                         (q_Apply d (co_Find collection (VBsonM m)) update) s
              | _ \<Rightarrow> invoke (UpsertCall collection m update) (co_Upsert d collection m update) s)
         | VObjectId id' \<Rightarrow>
             (case update of
                VChange _ _ _ _ \<Rightarrow>
                  invoke (ApplyCall (co_FindId collection (VObjectId id')) update)
                         (q_Apply d (co_FindId collection (VObjectId id')) update) s
              | _ \<Rightarrow> invoke (UpsertIdCall collection id' update) (co_UpsertId d collection id' update) s)
         | _ \<Rightarrow> ((None, Some errUnSupportType), s)))"

definition RemoveDoc ::
  "'w driver \<Rightarrow> string \<Rightarrow> val \<Rightarrow> 'w state \<Rightarrow> error option \<times> 'w state" where
  "RemoveDoc d collection selector s =
     (if selector = VNil then (Some errNull, s)
      else
        (case selector of
           VBsonM m \<Rightarrow> invoke (RemoveCall collection m) (co_Remove d collection m) s
         | VObjectId id' \<Rightarrow> invoke (RemoveIdCall collection id') (co_RemoveId d collection id') s
         | _ \<Rightarrow> (Some errUnSupportType, s)))"

definition SoftRemoveDoc ::
  "'w driver \<Rightarrow> string \<Rightarrow> val \<Rightarrow> 'w state \<Rightarrow> error option \<times> 'w state" where
  "SoftRemoveDoc d collection selector s =
     (if selector = VNil then (Some errNull, s)
      else
        (case Now d s of
           (t1, s1) \<Rightarrow>
             (case Now d s1 of
                (t2, s2) \<Rightarrow>
                  let update = AList.update ''is_delete'' (VBool True)
                                 (AList.update ''delete_at'' t2
                                    (AList.update ''modify_at'' t1 []))
                  in
                    (case selector of
                       VBsonM m \<Rightarrow>
                         invoke (UpdateCall collection m (VBsonM [(''$set'', VBsonM update)]))
                                (co_Update d collection m (VBsonM [(''$set'', VBsonM update)])) s2
                     | VObjectId id' \<Rightarrow>
                         invoke (UpdateIdCall collection id' (VBsonM [(''$set'', VBsonM update)]))
                                (co_UpdateId d collection id' (VBsonM [(''$set'', VBsonM update)])) s2
                     | _ \<Rightarrow> (Some errUnSupportType, s2)))))"

text \<open>
  \<^verbatim>\<open>UpdateDoc\<close>: \<open>update\<close> is the address of the caller's \<^verbatim>\<open>bson.M\<close>; the driver is
  handed that map as it is after the two deletions.
\<close>

definition UpdateDoc ::
  "'w driver \<Rightarrow> string \<Rightarrow> val \<Rightarrow> nat \<Rightarrow> 'w state \<Rightarrow> error option \<times> 'w state" where
  "UpdateDoc d collection selector update s =
     (if selector = VNil then (Some errNull, s)
      else
        let s1 = (if map_of (maps s update) ''_id'' \<noteq> None then delete_key update ''_id'' s else s);
            s2 = (if map_of (maps s1 update) ''create_at'' \<noteq> None
                  then delete_key update ''create_at'' s1 else s1)
        in
          (case selector of
             VBsonM m \<Rightarrow>
               invoke (UpdateCall collection m (VBsonM (maps s2 update)))
                      (co_Update d collection m (VBsonM (maps s2 update))) s2
           | VObjectId id' \<Rightarrow>
               invoke (UpdateIdCall collection id' (VBsonM (maps s2 update)))
                      (co_UpdateId d collection id' (VBsonM (maps s2 update))) s2
           | _ \<Rightarrow> (Some errUnSupportType, s2)))"

section \<open>Queries\<close>

text \<open>
  \<^verbatim>\<open>Find\<close> builds the query on a copy of the session and returns it; the deferred
  \<^verbatim>\<open>session.Close()\<close> runs on the way out, so the query the caller receives is bound to
  a session that is closed. A panic of \<^verbatim>\<open>Sort\<close> unwinds \<^verbatim>\<open>Find\<close> and \<^verbatim>\<open>FindDoc\<close>.
  \<^verbatim>\<open>FindDoc\<close> runs its query before it returns, on the open session. A query variable
  that was never assigned is the nil pointer (\<open>None\<close>); \<^verbatim>\<open>One\<close> reads its receiver's
  fields first, so on the nil pointer it panics with a nil dereference.
\<close>

definition Find ::
  "string \<Rightarrow> val \<Rightarrow> Page \<Rightarrow> string list \<Rightarrow> (QueryHandle option \<times> error option) res" where
  "Find collection query page sortKeys =
     (if query = VNil then Return (None, Some errNull)
      else
        let q = co_Find collection query;
            sortKeys1 = (if length sortKeys = 0 then sortKeys @ [''-create_at''] else sortKeys)
        in
          (case q_Sort sortKeys1 q of
             Panic p \<Rightarrow> Panic p
           | Return q1 \<Rightarrow>
               let q2 = (if Valid page then q_Limit (Limit page) (q_Skip (Offset page) q1) else q1)
               in Return (Some (session_Close \<lparr>the_query = q2, session_closed = False\<rparr>), None)))"

definition FindDoc ::
  "'w driver \<Rightarrow> string \<Rightarrow> val \<Rightarrow> Page \<Rightarrow> string list \<Rightarrow> 'w state \<Rightarrow>
     (val list \<times> error option) res \<times> 'w state" where
  "FindDoc d collection query page sortKeys s =
     (if query = VNil then (Return ([], Some errNull), s)
      else
        let q = co_Find collection query;
            sortKeys1 = (if length sortKeys = 0 then sortKeys @ [''-create_at''] else sortKeys)
        in
          (case q_Sort sortKeys1 q of
             Panic p \<Rightarrow> (Panic p, s)
           | Return q1 \<Rightarrow>
               let q2 = (if Valid page then q_Limit (Limit page) (q_Skip (Offset page) q1) else q1)
               in (case invoke (AllCall q2) (q_All d q2) s of
                     (r, s1) \<Rightarrow> (Return r, s1))))"

text \<open>
  \<^verbatim>\<open>Query.All\<close> as the caller of \<^verbatim>\<open>Find\<close> would call it on the query it was handed.
\<close>

definition Query_All ::
  "'w driver \<Rightarrow> QueryHandle \<Rightarrow> 'w state \<Rightarrow> (val list \<times> error option) res \<times> 'w state" where
  "Query_All d h s =
     (if session_closed h then (Panic ''Session already closed'', s)
      else (case invoke (AllCall (the_query h)) (q_All d (the_query h)) s of
              (r, s1) \<Rightarrow> (Return r, s1)))"

definition FindOne ::
  "'w driver \<Rightarrow> string \<Rightarrow> val \<Rightarrow> 'w state \<Rightarrow> (val \<times> error option) res \<times> 'w state" where
  "FindOne d collection query s =
     (if query = VNil then (Return (VNil, Some errNull), s)
      else
        (case (case query of
                 VBsonM m \<Rightarrow>
                   (case invoke (CountCall (co_Find collection (VBsonM m)))
                                (q_Count d (co_Find collection (VBsonM m))) s of
                      ((cnt, Some err), s1) \<Rightarrow> Inl (Return (VNil, Some err), s1)
                    | ((cnt, None), s1) \<Rightarrow>
                        if cnt > 1 then Inl (Return (VNil, Some ErrNotFound), s1)
                        else Inr (Some (co_Find collection (VBsonM m)), s1))
               | _ \<Rightarrow> Inr (None, s)) of
           Inl early \<Rightarrow> early
         | Inr (q, s1) \<Rightarrow>
             let q1 = (case query of
                         VObjectId id' \<Rightarrow> Some (co_FindId collection (VObjectId id'))
                       | _ \<Rightarrow> q)
             in
               (case q1 of
                  None \<Rightarrow> (Panic ''invalid memory address or nil pointer dereference'', s1)
                | Some q2 \<Rightarrow>
                    (case invoke (OneCall q2) (q_One d q2) s1 of
                       (r, s2) \<Rightarrow> (Return r, s2)))))"

section \<open>Blob storage\<close>

definition CreateGridFs ::
  "'w driver \<Rightarrow> string \<Rightarrow> string \<Rightarrow> 'w state \<Rightarrow> (string \<times> error option) \<times> 'w state" where
  "CreateGridFs d name data s =
     (case invoke NewObjectIdCall (bson_NewObjectId d) s of
        (id', s1) \<Rightarrow>
          (case invoke (GridFSCreateCall name) (gfs_Create d name) s1 of
             (Inl err, s2) \<Rightarrow> ((id', Some err), s2)
           | (Inr fs, s2) \<Rightarrow>
               (case invoke (SetIdCall fs id') (fs_SetId d fs id') s2 of
                  (_, s3) \<Rightarrow>
                    (case invoke (WriteCall fs data) (fs_Write d fs data) s3 of
                       (Some err, s4) \<Rightarrow> ((id', Some err), s4)
                     | (None, s4) \<Rightarrow>
                         (case invoke (CloseCall fs) (fs_Close d fs) s4 of
                            (Some err, s5) \<Rightarrow> (([], Some err), s5)
                          | (None, s5) \<Rightarrow> ((id', None), s5))))))"

section \<open>An in-memory driver\<close>

text \<open>
  Modelled from the spec: the driver and the database are not part of the repository.
  This is the document store the specification describes in its sections 4 and 6, as a
  driver over lists of documents: a collection is a list of documents; a query selects
  the documents its filter matches, orders them when sort keys are given, skips
  \<open>q_skip\<close> of them and keeps at most \<open>q_limit\<close> (zero: no limit); \<^verbatim>\<open>One\<close> yields the
  first result or \<^verbatim>\<open>ErrNotFound\<close>; \<^verbatim>\<open>Update\<close> and \<^verbatim>\<open>Remove\<close> act on the first
  match and report \<^verbatim>\<open>ErrNotFound\<close> when there is none. What a filter matches and how
  sort keys order documents are parameters (\<open>matches\<close>, \<open>order\<close>). An update document
  with a \<^verbatim>\<open>$set\<close> entry writes the listed fields into the stored document; one
  without replaces the stored document and keeps its \<^verbatim>\<open>_id\<close>. The clock advances
  at every reading.
\<close>

record memfile =
  file_id :: string
  file_name :: string
  file_data :: string
  file_closed :: bool

record memdb =
  colls :: "(string \<times> gomap list) list"
  indexes :: "(string \<times> index) list"
  files :: "memfile list"
  oid_counter :: nat
  clock :: nat

definition docs_of :: "memdb \<Rightarrow> string \<Rightarrow> gomap list" where
  "docs_of w c = (case map_of (colls w) c of None \<Rightarrow> [] | Some ds \<Rightarrow> ds)"

definition put_docs :: "string \<Rightarrow> gomap list \<Rightarrow> memdb \<Rightarrow> memdb" where
  "put_docs c ds w = w\<lparr>colls := AList.update c ds (colls w)\<rparr>"

text \<open>Equality filters: every entry of the filter is a field of the document.\<close>

fun eq_matches :: "val \<Rightarrow> gomap \<Rightarrow> bool" where
  "eq_matches (VBsonM f) doc = list_all (\<lambda>(k, v). map_of doc k = Some v) f"
| "eq_matches (VBsonD f) doc = list_all (\<lambda>(k, v). map_of doc k = Some v) f"
| "eq_matches _ doc = False"

definition run_query ::
  "(val \<Rightarrow> gomap \<Rightarrow> bool) \<Rightarrow> (string list \<Rightarrow> gomap list \<Rightarrow> gomap list) \<Rightarrow>
     mgo_Query \<Rightarrow> memdb \<Rightarrow> gomap list" where
  "run_query matches order q w =
     (let found = filter (matches (q_selector q)) (docs_of w (q_collection q));
          sorted = (if q_sort q = [] then found else order (q_sort q) found);
          skipped = drop (nat (sint (q_skip q))) sorted
      in if q_limit q = 0 then skipped else take (nat \<bar>sint (q_limit q)\<bar>) skipped)"

fun set_fields :: "gomap \<Rightarrow> gomap \<Rightarrow> gomap" where
  "set_fields [] doc = doc"
| "set_fields ((k, v) # fs) doc = set_fields fs (AList.update k v doc)"

definition apply_update :: "val \<Rightarrow> gomap \<Rightarrow> gomap" where
  "apply_update upd doc =
     (case upd of
        VBsonM u \<Rightarrow>
          (case map_of u ''$set'' of
             Some (VBsonM fs) \<Rightarrow> set_fields fs doc
           | _ \<Rightarrow>
               (case map_of doc ''_id'' of
                  None \<Rightarrow> u
                | Some i \<Rightarrow> AList.update ''_id'' i u))
      | _ \<Rightarrow> doc)"

fun update_first :: "(gomap \<Rightarrow> bool) \<Rightarrow> (gomap \<Rightarrow> gomap) \<Rightarrow> gomap list \<Rightarrow> gomap list option" where
  "update_first P f [] = None"
| "update_first P f (doc # ds) =
     (if P doc then Some (f doc # ds)
      else (case update_first P f ds of None \<Rightarrow> None | Some ds' \<Rightarrow> Some (doc # ds')))"

fun remove_first :: "(gomap \<Rightarrow> bool) \<Rightarrow> gomap list \<Rightarrow> gomap list option" where
  "remove_first P [] = None"
| "remove_first P (doc # ds) =
     (if P doc then Some ds
      else (case remove_first P ds of None \<Rightarrow> None | Some ds' \<Rightarrow> Some (doc # ds')))"

definition mem_Update ::
  "(val \<Rightarrow> gomap \<Rightarrow> bool) \<Rightarrow> string \<Rightarrow> val \<Rightarrow> val \<Rightarrow> memdb \<Rightarrow> error option \<times> memdb" where
  "mem_Update matches c sel upd w =
     (case update_first (matches sel) (apply_update upd) (docs_of w c) of
        None \<Rightarrow> (Some ErrNotFound, w)
      | Some ds \<Rightarrow> (None, put_docs c ds w))"

definition mem_Remove ::
  "(val \<Rightarrow> gomap \<Rightarrow> bool) \<Rightarrow> string \<Rightarrow> val \<Rightarrow> memdb \<Rightarrow> error option \<times> memdb" where
  "mem_Remove matches c sel w =
     (case remove_first (matches sel) (docs_of w c) of
        None \<Rightarrow> (Some ErrNotFound, w)
      | Some ds \<Rightarrow> (None, put_docs c ds w))"

definition mem_Insert :: "string \<Rightarrow> val \<Rightarrow> memdb \<Rightarrow> error option \<times> memdb" where
  "mem_Insert c docs w =
     (case docs of
        VBsonM doc \<Rightarrow> (None, put_docs c (docs_of w c @ [doc]) w)
      | VMap doc \<Rightarrow> (None, put_docs c (docs_of w c @ [doc]) w)
      | _ \<Rightarrow> (Some (DriverError ''not a document''), w))"

definition mem_Upsert ::
  "(val \<Rightarrow> gomap \<Rightarrow> bool) \<Rightarrow> string \<Rightarrow> val \<Rightarrow> gomap \<Rightarrow> val \<Rightarrow> memdb \<Rightarrow>
     (ChangeInfo option \<times> error option) \<times> memdb" where
  "mem_Upsert matches c sel base upd w =
     (case update_first (matches sel) (apply_update upd) (docs_of w c) of
        None \<Rightarrow>
          ((Some \<lparr>Updated = 0, Removed = 0, Matched = 0, UpsertedId = VNil\<rparr>, None),
           put_docs c (docs_of w c @ [apply_update upd base]) w)
      | Some ds \<Rightarrow>
          ((Some \<lparr>Updated = 1, Removed = 0, Matched = 1, UpsertedId = VNil\<rparr>, None),
           put_docs c ds w))"

definition mem_Apply ::
  "(val \<Rightarrow> gomap \<Rightarrow> bool) \<Rightarrow> mgo_Query \<Rightarrow> val \<Rightarrow> memdb \<Rightarrow>
     (ChangeInfo option \<times> error option) \<times> memdb" where
  "mem_Apply matches q change w =
     (case change of
        VChange upd upsert remove returnNew \<Rightarrow>
          if remove then
            (case mem_Remove matches (q_collection q) (q_selector q) w of
               (None, w') \<Rightarrow>
                 ((Some \<lparr>Updated = 0, Removed = 1, Matched = 1, UpsertedId = VNil\<rparr>, None), w')
             | (Some err, w') \<Rightarrow> ((None, Some err), w'))
          else if upsert then mem_Upsert matches (q_collection q) (q_selector q) [] upd w
          else
            (case mem_Update matches (q_collection q) (q_selector q) upd w of
               (None, w') \<Rightarrow>
                 ((Some \<lparr>Updated = 1, Removed = 0, Matched = 1, UpsertedId = VNil\<rparr>, None), w')
             | (Some err, w') \<Rightarrow> ((None, Some err), w'))
      | _ \<Rightarrow> ((None, Some (DriverError ''not a change'')), w))"

definition mem_One ::
  "(val \<Rightarrow> gomap \<Rightarrow> bool) \<Rightarrow> (string list \<Rightarrow> gomap list \<Rightarrow> gomap list) \<Rightarrow>
     mgo_Query \<Rightarrow> memdb \<Rightarrow> (val \<times> error option) \<times> memdb" where
  "mem_One matches order q w =
     (case run_query matches order q w of
        [] \<Rightarrow> ((VNil, Some ErrNotFound), w)
      | doc # _ \<Rightarrow> ((VBsonM doc, None), w))"

definition mem_SetId :: "nat \<Rightarrow> string \<Rightarrow> memdb \<Rightarrow> unit \<times> memdb" where
  "mem_SetId fs id' w =
     (if fs < length (files w)
      then ((), w\<lparr>files := (files w)[fs := (files w ! fs)\<lparr>file_id := id'\<rparr>]\<rparr>)
      else ((), w))"

definition mem_Write :: "nat \<Rightarrow> string \<Rightarrow> memdb \<Rightarrow> error option \<times> memdb" where
  "mem_Write fs data w =
     (if fs < length (files w) \<and> \<not> file_closed (files w ! fs)
      then (None, w\<lparr>files := (files w)[fs := (files w ! fs)\<lparr>file_data := file_data (files w ! fs) @ data\<rparr>]\<rparr>)
      else (Some (DriverError ''file not open''), w))"

definition mem_Close :: "nat \<Rightarrow> memdb \<Rightarrow> error option \<times> memdb" where
  "mem_Close fs w =
     (if fs < length (files w) \<and> \<not> file_closed (files w ! fs)
      then (None, w\<lparr>files := (files w)[fs := (files w ! fs)\<lparr>file_closed := True\<rparr>]\<rparr>)
      else (Some (DriverError ''file not open''), w))"

definition mem ::
  "(val \<Rightarrow> gomap \<Rightarrow> bool) \<Rightarrow> (string list \<Rightarrow> gomap list \<Rightarrow> gomap list) \<Rightarrow> memdb driver" where
  "mem matches order =
     \<lparr>co_EnsureIndex = (\<lambda>c idx w. (None, w\<lparr>indexes := indexes w @ [(c, idx)]\<rparr>)),
      co_Insert = mem_Insert,
      q_Apply = mem_Apply matches,
      co_Upsert = (\<lambda>c m. mem_Upsert matches c (VBsonM m) m),
      co_UpsertId = (\<lambda>c i. mem_Upsert matches c (VBsonD [(''_id'', VObjectId i)]) [(''_id'', VObjectId i)]),
      co_Remove = (\<lambda>c m. mem_Remove matches c (VBsonM m)),
      co_RemoveId = (\<lambda>c i. mem_Remove matches c (VBsonD [(''_id'', VObjectId i)])),
      co_Update = (\<lambda>c m. mem_Update matches c (VBsonM m)),
      co_UpdateId = (\<lambda>c i. mem_Update matches c (VBsonD [(''_id'', VObjectId i)])),
      q_Count = (\<lambda>q w. ((int (length (run_query matches order q w)), None), w)),
      q_One = mem_One matches order,
      q_All = (\<lambda>q w. ((map VBsonM (run_query matches order q w), None), w)),
      bson_NewObjectId = (\<lambda>w. (replicate 11 (CHR 0x00) @ [char_of (oid_counter w)],
                                 w\<lparr>oid_counter := Suc (oid_counter w)\<rparr>)),
      gfs_Create = (\<lambda>name w. (Inr (length (files w)),
                                w\<lparr>files := files w @
                                   [\<lparr>file_id = [], file_name = name, file_data = [], file_closed = False\<rparr>]\<rparr>)),
      fs_SetId = mem_SetId,
      fs_Write = mem_Write,
      fs_Close = mem_Close,
      dao_Now = (\<lambda>w. (VInt (int (clock w)), w\<lparr>clock := Suc (clock w)\<rparr>))\<rparr>"

section \<open>The error kinds of the specification\<close>

text \<open>
  The specification names kinds of errors; \<open>kind_of_error\<close> says which kind each error
  value of the code is. No error value of the code is of the kind \<open>AmbiguousMatch\<close>.
\<close>

datatype error_kind =
    NullSelector
  | UnsupportedSelectorKind
  | AmbiguousMatch
  | NotFound
  | InvalidReferenceShape
  | InvalidIdentifierFormat
  | StorageOperationFailed

fun kind_of_error :: "error \<Rightarrow> error_kind" where
  "kind_of_error errNull = NullSelector"
| "kind_of_error errUnSupportType = UnsupportedSelectorKind"
| "kind_of_error ErrNotFound = NotFound"
| "kind_of_error (Errorf fmt args) =
     (if fmt = ''id format error [%v]'' then InvalidIdentifierFormat else InvalidReferenceShape)"
| "kind_of_error (DriverError _) = StorageOperationFailed"

section \<open>Example data\<close>

text \<open>
  A small database for the concrete instances below: three users, two of them named
  bob, and seventeen numbered posts; a driver over it with equality filters that returns
  documents in stored order.
\<close>

definition example_users :: "gomap list" where
  "example_users =
     [[(''_id'', VObjectId ''000000000001''), (''name'', VStr ''ann''),
       (''create_at'', VStr ''T1''), (''modify_at'', VStr ''T1'')],
      [(''_id'', VObjectId ''000000000002''), (''name'', VStr ''bob''),
       (''create_at'', VStr ''T2''), (''modify_at'', VStr ''T2'')],
      [(''_id'', VObjectId ''000000000003''), (''name'', VStr ''bob''),
       (''create_at'', VStr ''T3''), (''modify_at'', VStr ''T3'')]]"

definition example_posts :: "gomap list" where
  "example_posts =
     map (\<lambda>n. [(''n'', VInt n)]) [0, 1, 2, 3, 4, 5, 6, 7, 8, 9, 10, 11, 12, 13, 14, 15, 16]"

definition example_db :: memdb where
  "example_db =
     \<lparr>colls = [(''users'', example_users), (''posts'', example_posts)],
      indexes = [], files = [], oid_counter = 0, clock = 0\<rparr>"

definition example_state :: "gomap \<Rightarrow> memdb state" where
  "example_state m = \<lparr>db = example_db, trace = [], maps = (\<lambda>a. m)\<rparr>"

definition example_driver :: "memdb driver" where
  "example_driver = mem eq_matches (\<lambda>keys docs. docs)"

section \<open>Properties of the identifier functions\<close>

lemma hex_DecodeString_length:
  "hex_DecodeString s = Some d \<Longrightarrow> length s = 2 * length d"
  by (induction s arbitrary: d rule: hex_DecodeString.induct)
     (auto split: option.splits)

lemma IsObjectIdHex_ObjectIdHex:
  assumes "IsObjectIdHex s"
  shows "\<exists>oid. ObjectIdHex s = Return oid \<and> hex_DecodeString s = Some oid \<and> length oid = 12"
proof -
  from assms have len: "length s = 24" and dec: "hex_DecodeString s \<noteq> None"
    by (auto simp: IsObjectIdHex_def split: if_splits)
  from dec obtain d where d: "hex_DecodeString s = Some d" by auto
  with len have "length d = 12" using hex_DecodeString_length [OF d] by simp
  with d show ?thesis by (simp add: ObjectIdHex_def)
qed

section \<open>Reference resolution: what the caller's map holds afterwards\<close>

lemma DBRef_valid_id:
  assumes "map_of (h m) field = Some (VMap refer)"
      and "map_of refer ''id'' = Some (VStr hex)"
      and "IsObjectIdHex hex"
  shows "\<exists>oid. hex_DecodeString hex = Some oid \<and> length oid = 12 \<and>
           DBRef Pluralize field (Some name) m h =
             (Return None,
              h(m := AList.update (field @ ''_ref'')
                       (VDBRef (ToLower (Pluralize name)) (VObjectId oid) [])
                       (AList.delete field (h m))))"
proof -
  from IsObjectIdHex_ObjectIdHex [OF assms(3)] obtain oid
    where o: "ObjectIdHex hex = Return oid" "hex_DecodeString hex = Some oid" "length oid = 12"
    by blast
  show ?thesis
    using assms o by (simp add: DBRef_def)
qed

text \<open>
  On the format-error path of \<^verbatim>\<open>DBRef\<close> and \<^verbatim>\<open>DBRefId\<close> (an \<^verbatim>\<open>id\<close> of a kind
  other than String, or a string that is no identifier) the field has been deleted from
  the caller's map and nothing has been written.
\<close>

lemma DBRef_format_error:
  assumes "map_of (h m) field = Some (VMap refer)"
      and "map_of refer ''id'' = Some id'"
      and "(\<exists>k. TypeOf_Kind id' = Some k \<and> k \<noteq> KString) \<or> (\<exists>s. id' = VStr s \<and> \<not> IsObjectIdHex s)"
  shows "DBRef Pluralize field t m h =
           (Return (Some (Errorf ''id format error [%v]'' [id'])), h(m := AList.delete field (h m)))"
    and "DBRefId field m h =
           (Return (Some (Errorf ''id format error [%v]'' [id'])), h(m := AList.delete field (h m)))"
  using assms by (auto simp: DBRef_def DBRefId_def)

text \<open>
  Claim C8. Given a map with a field \<^verbatim>\<open>author\<close> whose value is an object holding a
  24-digit hexadecimal \<^verbatim>\<open>id\<close>, and the type descriptor named \<^verbatim>\<open>Author\<close>,
  \<^verbatim>\<open>DBRef\<close> returns no error, deletes \<^verbatim>\<open>author\<close> from the caller's map and writes
  under \<^verbatim>\<open>author_ref\<close> a reference holding the decoded identifier and the collection
  name \<^verbatim>\<open>authors\<close>, the lower-cased plural of the type's name; every other entry of the
  map and every other map stay as they were. The plural of \<^verbatim>\<open>Author\<close> is what the
  third-party pluralizer returns for it, \<^verbatim>\<open>Authors\<close>.
\<close>

theorem DBRef_author:
  assumes "map_of (h m) ''author'' = Some (VMap refer)"
      and "map_of refer ''id'' = Some (VStr hex)"
      and "IsObjectIdHex hex"
      and "Pluralize ''Author'' = ''Authors''"
  shows "\<exists>oid h'. hex_DecodeString hex = Some oid \<and> length oid = 12 \<and>
           DBRef Pluralize ''author'' (Some ''Author'') m h = (Return None, h') \<and>
           map_of (h' m) ''author'' = None \<and>
           map_of (h' m) ''author_ref'' = Some (VDBRef ''authors'' (VObjectId oid) []) \<and>
           (\<forall>k. k \<noteq> ''author'' \<and> k \<noteq> ''author_ref'' \<longrightarrow> map_of (h' m) k = map_of (h m) k) \<and>
           (\<forall>a. a \<noteq> m \<longrightarrow> h' a = h a)"
proof -
  from assms(1-3) DBRef_valid_id [of h m "''author''" refer hex Pluralize "''Author''"] obtain oid where
    o: "hex_DecodeString hex = Some oid" "length oid = 12"
       "DBRef Pluralize ''author'' (Some ''Author'') m h =
          (Return None,
           h(m := AList.update ''author_ref''
                    (VDBRef (ToLower (Pluralize ''Author'')) (VObjectId oid) [])
                    (AList.delete ''author'' (h m))))"
    by auto
  have low: "ToLower (Pluralize ''Author'') = ''authors''"
    by (simp add: assms(4) ToLower_def lower_char_def)
  show ?thesis
    using o by (simp add: low update_conv' delete_conv')
qed

theorem DBRef_author_witness:
  "IsObjectIdHex ''507f1f77bcf86cd799439011'' \<and>
   fst (DBRef (\<lambda>s. s @ ''s'') ''author'' (Some ''Author'') 0
          (\<lambda>a. [(''author'', VMap [(''id'', VStr ''507f1f77bcf86cd799439011'')]),
                (''title'', VStr ''On maps'')])) = Return None \<and>
   map_of (snd (DBRef (\<lambda>s. s @ ''s'') ''author'' (Some ''Author'') 0
          (\<lambda>a. [(''author'', VMap [(''id'', VStr ''507f1f77bcf86cd799439011'')]),
                (''title'', VStr ''On maps'')])) 0) ''author'' = None \<and>
   map_of (snd (DBRef (\<lambda>s. s @ ''s'') ''author'' (Some ''Author'') 0
          (\<lambda>a. [(''author'', VMap [(''id'', VStr ''507f1f77bcf86cd799439011'')]),
                (''title'', VStr ''On maps'')])) 0) ''title'' = Some (VStr ''On maps'')"
proof -
  let ?h = "\<lambda>a::nat. [(''author'', VMap [(''id'', VStr ''507f1f77bcf86cd799439011'')]),
                (''title'', VStr ''On maps'')]"
  have hex: "IsObjectIdHex ''507f1f77bcf86cd799439011''"
    by (simp add: IsObjectIdHex_def fromHexChar_def)
  have l1: "map_of (?h 0) ''author'' = Some (VMap [(''id'', VStr ''507f1f77bcf86cd799439011'')])"
    by simp
  have l2: "map_of [(''id'', VStr ''507f1f77bcf86cd799439011'')] ''id'' =
              Some (VStr ''507f1f77bcf86cd799439011'')"
    by simp
  have l3: "(\<lambda>s. s @ ''s'') ''Author'' = ''Authors''"
    by simp
  from DBRef_author [of ?h 0 _ _ "\<lambda>s. s @ ''s''", OF l1 l2 hex l3] obtain h' where
    r: "DBRef (\<lambda>s. s @ ''s'') ''author'' (Some ''Author'') 0 ?h = (Return None, h')"
       "map_of (h' 0) ''author'' = None"
       "\<forall>k. k \<noteq> ''author'' \<and> k \<noteq> ''author_ref'' \<longrightarrow> map_of (h' 0) k = map_of (?h 0) k"
    by blast
  from r(3) have "map_of (h' 0) ''title'' = Some (VStr ''On maps'')"
    by simp
  with hex r(1,2) show ?thesis
    by simp
qed

text \<open>
  Claim C4. The claim has \<^verbatim>\<open>DBRef\<close> and \<^verbatim>\<open>DBRefId\<close> return the format error for
  every \<^verbatim>\<open>id\<close> that is not a string. For the \<^verbatim>\<open>id\<close> that is nil (a JSON
  \<^verbatim>\<open>null\<close>) neither returns: the field is deleted from the caller's map, and then
  \<^verbatim>\<open>reflect.TypeOf(id).Kind()\<close> panics on the nil type.
\<close>

theorem DBRef_nil_id_panics:
  "DBRef (\<lambda>s. s @ ''s'') ''author'' (Some ''Author'') 0
      (\<lambda>a. [(''author'', VMap [(''id'', VNil)]), (''title'', VStr ''On maps'')]) =
     (Panic ''invalid memory address or nil pointer dereference'',
      (\<lambda>a. [(''author'', VMap [(''id'', VNil)]), (''title'', VStr ''On maps'')])
        (0 := [(''title'', VStr ''On maps'')])) \<and>
   DBRefId ''author'' 0
      (\<lambda>a. [(''author'', VMap [(''id'', VNil)]), (''title'', VStr ''On maps'')]) =
     (Panic ''invalid memory address or nil pointer dereference'',
      (\<lambda>a. [(''author'', VMap [(''id'', VNil)]), (''title'', VStr ''On maps'')])
        (0 := [(''title'', VStr ''On maps'')]))"
  by (simp add: DBRef_def DBRefId_def)

section \<open>Calls, traces and the caller's update map\<close>

lemma invoke_eq:
  "invoke c f s = (fst (f (db s)), s\<lparr>db := snd (f (db s)), trace := trace s @ [c]\<rparr>)"
  by (simp add: invoke_def split: prod.splits)

lemma maps_invoke: "maps (snd (invoke c f s)) = maps s"
  by (simp add: invoke_eq)

lemma trace_invoke: "trace (snd (invoke c f s)) = trace s @ [c]"
  by (simp add: invoke_eq)

lemma Now_eq: "Now d s = (fst (dao_Now d (db s)), s\<lparr>db := snd (dao_Now d (db s))\<rparr>)"
  by (simp add: Now_def split: prod.splits)

lemma delete_key_absent: "map_of (maps s m) k = None \<Longrightarrow> delete_key m k s = s"
proof -
  assume "map_of (maps s m) k = None"
  then have "k \<notin> fst ` set (maps s m)"
    by (simp add: map_of_eq_None_iff)
  then have "AList.delete k (maps s m) = maps s m"
    by simp
  then show ?thesis
    by (simp add: delete_key_def)
qed

lemma UpdateDoc_deletions:
  "(let s1 = (if map_of (maps s u) ''_id'' \<noteq> None then delete_key u ''_id'' s else s)
    in (if map_of (maps s1 u) ''create_at'' \<noteq> None then delete_key u ''create_at'' s1 else s1)) =
   s\<lparr>maps := (maps s)(u := AList.delete ''create_at'' (AList.delete ''_id'' (maps s u)))\<rparr>"
proof -
  have a: "(if map_of (maps s u) ''_id'' \<noteq> None then delete_key u ''_id'' s else s) =
             delete_key u ''_id'' s"
    by (simp add: delete_key_absent)
  have b: "(if map_of (maps (delete_key u ''_id'' s) u) ''create_at'' \<noteq> None
            then delete_key u ''create_at'' (delete_key u ''_id'' s) else delete_key u ''_id'' s) =
           delete_key u ''create_at'' (delete_key u ''_id'' s)"
    using delete_key_absent [of "delete_key u ''_id'' s" u "''create_at''"] by auto
  show ?thesis
    unfolding Let_def a b by (simp add: delete_key_def)
qed

lemma UpdateDoc_eq:
  assumes "selector \<noteq> VNil"
  shows "UpdateDoc d c selector u s =
     (case selector of
        VBsonM m \<Rightarrow>
          invoke (UpdateCall c m (VBsonM (AList.delete ''create_at'' (AList.delete ''_id'' (maps s u)))))
                 (co_Update d c m (VBsonM (AList.delete ''create_at'' (AList.delete ''_id'' (maps s u)))))
                 (s\<lparr>maps := (maps s)(u := AList.delete ''create_at'' (AList.delete ''_id'' (maps s u)))\<rparr>)
      | VObjectId i \<Rightarrow>
          invoke (UpdateIdCall c i (VBsonM (AList.delete ''create_at'' (AList.delete ''_id'' (maps s u)))))
                 (co_UpdateId d c i (VBsonM (AList.delete ''create_at'' (AList.delete ''_id'' (maps s u)))))
                 (s\<lparr>maps := (maps s)(u := AList.delete ''create_at'' (AList.delete ''_id'' (maps s u)))\<rparr>)
      | _ \<Rightarrow>
          (Some errUnSupportType,
           s\<lparr>maps := (maps s)(u := AList.delete ''create_at'' (AList.delete ''_id'' (maps s u)))\<rparr>))"
proof -
  define s2 where
    "s2 = (let s1 = (if map_of (maps s u) ''_id'' \<noteq> None then delete_key u ''_id'' s else s)
           in (if map_of (maps s1 u) ''create_at'' \<noteq> None then delete_key u ''create_at'' s1 else s1))"
  have s2: "s2 = s\<lparr>maps := (maps s)(u := AList.delete ''create_at'' (AList.delete ''_id'' (maps s u)))\<rparr>"
    unfolding s2_def by (rule UpdateDoc_deletions)
  have "UpdateDoc d c selector u s =
          (case selector of
             VBsonM m \<Rightarrow> invoke (UpdateCall c m (VBsonM (maps s2 u))) (co_Update d c m (VBsonM (maps s2 u))) s2
           | VObjectId i \<Rightarrow> invoke (UpdateIdCall c i (VBsonM (maps s2 u))) (co_UpdateId d c i (VBsonM (maps s2 u))) s2
           | _ \<Rightarrow> (Some errUnSupportType, s2))"
    unfolding UpdateDoc_def s2_def Let_def using assms by (simp split del: if_split cong: if_cong)
  then show ?thesis
    unfolding s2 by (simp split: val.splits)
qed

lemma UpdateDoc_maps:
  assumes "selector \<noteq> VNil"
  shows "maps (snd (UpdateDoc d c selector u s)) =
           (maps s)(u := AList.delete ''create_at'' (AList.delete ''_id'' (maps s u)))"
  by (simp add: UpdateDoc_eq [OF assms] maps_invoke split: val.splits)

lemma delete_two_filter:
  "AList.delete ''create_at'' (AList.delete ''_id'' al) =
     filter (\<lambda>kv. fst kv \<noteq> ''_id'' \<and> fst kv \<noteq> ''create_at'') al"
  by (induction al) (auto simp: AList.delete_eq)

section \<open>Selectors of an unsupported kind\<close>

text \<open>
  For a selector that is not nil, not a \<^verbatim>\<open>bson.M\<close> and not a \<^verbatim>\<open>bson.ObjectId\<close>,
  \<^verbatim>\<open>UpsertDoc\<close>, \<^verbatim>\<open>RemoveDoc\<close>, \<^verbatim>\<open>SoftRemoveDoc\<close> and \<^verbatim>\<open>UpdateDoc\<close> return
  \<open>errUnSupportType\<close> and issue no call; \<^verbatim>\<open>FindOne\<close> calls \<^verbatim>\<open>One\<close> on the query
  pointer it never assigned.
\<close>

lemma unsupported_selector_siblings:
  assumes "selector \<noteq> VNil" and "\<forall>m. selector \<noteq> VBsonM m" and "\<forall>i. selector \<noteq> VObjectId i"
  shows "UpsertDoc d c selector upd s = ((None, Some errUnSupportType), s)"
    and "RemoveDoc d c selector s = (Some errUnSupportType, s)"
    and "fst (SoftRemoveDoc d c selector s) = Some errUnSupportType"
    and "trace (snd (SoftRemoveDoc d c selector s)) = trace s"
    and "fst (UpdateDoc d c selector u s) = Some errUnSupportType"
    and "trace (snd (UpdateDoc d c selector u s)) = trace s"
    and "db (snd (UpdateDoc d c selector u s)) = db s"
  using assms
  by (cases selector; simp add: UpsertDoc_def RemoveDoc_def SoftRemoveDoc_def UpdateDoc_eq Now_eq)+

lemma unsupported_selector_FindOne:
  assumes "selector \<noteq> VNil" and "\<forall>m. selector \<noteq> VBsonM m" and "\<forall>i. selector \<noteq> VObjectId i"
  shows "FindOne d c selector s = (Panic ''invalid memory address or nil pointer dereference'', s)"
  using assms by (cases selector; simp add: FindOne_def)

text \<open>
  Claim C2. The claim has every operation return the unsupported-selector error for a
  selector that is neither an identifier nor a filter map. At the string selector
  \<^verbatim>\<open>"abc"\<close> the four write operations do, and issue no call; \<^verbatim>\<open>FindOne\<close> panics
  with a nil dereference instead, for every driver, collection and state.
\<close>

theorem FindOne_unsupported_selector_panics:
  "FindOne d c (VStr ''abc'') s =
     (Panic ''invalid memory address or nil pointer dereference'', s) \<and>
   UpsertDoc d c (VStr ''abc'') upd s = ((None, Some errUnSupportType), s) \<and>
   RemoveDoc d c (VStr ''abc'') s = (Some errUnSupportType, s) \<and>
   fst (SoftRemoveDoc d c (VStr ''abc'') s) = Some errUnSupportType \<and>
   trace (snd (SoftRemoveDoc d c (VStr ''abc'') s)) = trace s \<and>
   fst (UpdateDoc d c (VStr ''abc'') u s) = Some errUnSupportType \<and>
   trace (snd (UpdateDoc d c (VStr ''abc'') u s)) = trace s"
  by (simp add: FindOne_def UpsertDoc_def RemoveDoc_def SoftRemoveDoc_def UpdateDoc_eq Now_eq)

section \<open>Update\<close>

text \<open>
  Claim C10. After every call of \<^verbatim>\<open>UpdateDoc\<close> with a non-nil selector, whatever its
  kind and whatever the driver answers, the caller's own map has lost the top-level keys
  \<^verbatim>\<open>_id\<close> and \<^verbatim>\<open>create_at\<close>, holds every other key as before, and no other map
  has changed.
\<close>

theorem UpdateDoc_mutates_caller_map:
  assumes "selector \<noteq> VNil"
  shows "map_of (maps (snd (UpdateDoc d c selector u s)) u) ''_id'' = None \<and>
         map_of (maps (snd (UpdateDoc d c selector u s)) u) ''create_at'' = None \<and>
         (\<forall>k. k \<noteq> ''_id'' \<and> k \<noteq> ''create_at'' \<longrightarrow>
              map_of (maps (snd (UpdateDoc d c selector u s)) u) k = map_of (maps s u) k) \<and>
         (\<forall>a. a \<noteq> u \<longrightarrow> maps (snd (UpdateDoc d c selector u s)) a = maps s a)"
  by (simp add: UpdateDoc_maps [OF assms] delete_conv')

theorem UpdateDoc_mutates_caller_map_witness:
  "VStr ''abc'' \<noteq> VNil \<and>
   fst (UpdateDoc example_driver ''users'' (VStr ''abc'') 0
          (example_state [(''_id'', VObjectId ''000000000009''), (''name'', VStr ''eve'')])) =
     Some errUnSupportType \<and>
   map_of (maps (snd (UpdateDoc example_driver ''users'' (VStr ''abc'') 0
          (example_state [(''_id'', VObjectId ''000000000009''), (''name'', VStr ''eve'')]))) 0) ''_id'' = None \<and>
   map_of (maps (snd (UpdateDoc example_driver ''users'' (VStr ''abc'') 0
          (example_state [(''_id'', VObjectId ''000000000009''), (''name'', VStr ''eve'')]))) 0) ''name'' =
     Some (VStr ''eve'')"
proof -
  have n: "VStr ''abc'' \<noteq> VNil"
    by simp
  have e: "fst (UpdateDoc example_driver ''users'' (VStr ''abc'') 0
          (example_state [(''_id'', VObjectId ''000000000009''), (''name'', VStr ''eve'')])) =
     Some errUnSupportType"
    by (simp add: UpdateDoc_eq)
  show ?thesis
    using n e
      UpdateDoc_mutates_caller_map [OF n, of example_driver "''users''" 0
        "example_state [(''_id'', VObjectId ''000000000009''), (''name'', VStr ''eve'')]"]
    by (simp add: example_state_def)
qed

text \<open>
  Claim C3, as amended. For a selector of a supported kind, \<^verbatim>\<open>UpdateDoc\<close> hands the
  driver the caller's payload without its top-level entries \<^verbatim>\<open>_id\<close> and
  \<^verbatim>\<open>create_at\<close>, every other entry as the caller wrote it (the value of an operator
  such as \<^verbatim>\<open>$set\<close> is not looked into), in one \<^verbatim>\<open>Update\<close> or \<^verbatim>\<open>UpdateId\<close>
  call.
\<close>

theorem UpdateDoc_strips_top_level_keys:
  "(let p = filter (\<lambda>kv. fst kv \<noteq> ''_id'' \<and> fst kv \<noteq> ''create_at'') (maps s u)
    in UpdateDoc d c (VBsonM m) u s =
         invoke (UpdateCall c m (VBsonM p)) (co_Update d c m (VBsonM p)) (s\<lparr>maps := (maps s)(u := p)\<rparr>) \<and>
       UpdateDoc d c (VObjectId i) u s =
         invoke (UpdateIdCall c i (VBsonM p)) (co_UpdateId d c i (VBsonM p)) (s\<lparr>maps := (maps s)(u := p)\<rparr>))"
  by (simp add: UpdateDoc_eq delete_two_filter Let_def)

text \<open>
  Claim C3 as stated fails: a payload \<^verbatim>\<open>{"$set": {"create_at": "T9"}}\<close> reaches the
  driver unchanged, and on the in-memory store the creation timestamp of the document
  goes from \<^verbatim>\<open>T1\<close> to \<^verbatim>\<open>T9\<close>.
\<close>

theorem UpdateDoc_nested_create_at_counterexample:
  "fst (UpdateDoc example_driver ''users'' (VObjectId ''000000000001'') 0
          (example_state [(''$set'', VBsonM [(''create_at'', VStr ''T9'')])])) = None \<and>
   trace (snd (UpdateDoc example_driver ''users'' (VObjectId ''000000000001'') 0
          (example_state [(''$set'', VBsonM [(''create_at'', VStr ''T9'')])]))) =
     [UpdateIdCall ''users'' ''000000000001'' (VBsonM [(''$set'', VBsonM [(''create_at'', VStr ''T9'')])])] \<and>
   map_of (hd (docs_of (db (example_state [(''$set'', VBsonM [(''create_at'', VStr ''T9'')])])) ''users''))
     ''create_at'' = Some (VStr ''T1'') \<and>
   map_of (hd (docs_of (db (snd (UpdateDoc example_driver ''users'' (VObjectId ''000000000001'') 0
          (example_state [(''$set'', VBsonM [(''create_at'', VStr ''T9'')])])))) ''users''))
     ''create_at'' = Some (VStr ''T9'')"
  by (simp add: UpdateDoc_eq invoke_eq example_state_def example_db_def example_users_def
      example_driver_def mem_def mem_Update_def docs_of_def put_docs_def apply_update_def)

section \<open>Create\<close>

text \<open>
  Claim C5. Called without index keys, \<^verbatim>\<open>CreateDoc\<close> first asks the driver to ensure
  the index on the single key \<^verbatim>\<open>-create_at\<close> with Unique, DropDups, Background and
  Sparse all set. If that fails, \<^verbatim>\<open>CreateDoc\<close> returns the error and the index call is
  the only call it made; if it succeeds, the insert follows and its result is returned.
\<close>

theorem CreateDoc_default_index:
  "(let index = \<lparr>Key = [''-create_at''], Unique = True, DropDups = True, Background = True, Sparse = True\<rparr>
    in (\<forall>err w. co_EnsureIndex d c index (db s) = (Some err, w) \<longrightarrow>
          CreateDoc d c docs [] s =
            (Some err, s\<lparr>db := w, trace := trace s @ [EnsureIndexCall c index]\<rparr>)) \<and>
       (\<forall>w. co_EnsureIndex d c index (db s) = (None, w) \<longrightarrow>
          CreateDoc d c docs [] s =
            (fst (co_Insert d c docs w),
             s\<lparr>db := snd (co_Insert d c docs w),
               trace := trace s @ [EnsureIndexCall c index, InsertCall c docs]\<rparr>)))"
  by (simp add: CreateDoc_def invoke_eq Let_def)

theorem CreateDoc_default_index_witness:
  "CreateDoc (example_driver\<lparr>co_EnsureIndex := (\<lambda>c idx w. (Some (DriverError ''no index''), w))\<rparr>)
      ''users'' (VBsonM [(''name'', VStr ''eve'')]) [] (example_state []) =
     (Some (DriverError ''no index''),
      (example_state [])\<lparr>trace := [EnsureIndexCall ''users''
          \<lparr>Key = [''-create_at''], Unique = True, DropDups = True, Background = True, Sparse = True\<rparr>]\<rparr>) \<and>
   fst (CreateDoc example_driver ''users'' (VBsonM [(''name'', VStr ''eve'')]) [] (example_state [])) = None \<and>
   trace (snd (CreateDoc example_driver ''users'' (VBsonM [(''name'', VStr ''eve'')]) [] (example_state []))) =
     [EnsureIndexCall ''users''
        \<lparr>Key = [''-create_at''], Unique = True, DropDups = True, Background = True, Sparse = True\<rparr>,
      InsertCall ''users'' (VBsonM [(''name'', VStr ''eve'')])]"
  using
    CreateDoc_default_index [of "example_driver\<lparr>co_EnsureIndex := (\<lambda>c idx w. (Some (DriverError ''no index''), w))\<rparr>"
      "''users''" "example_state []" "VBsonM [(''name'', VStr ''eve'')]"]
    CreateDoc_default_index [of example_driver "''users''" "example_state []" "VBsonM [(''name'', VStr ''eve'')]"]
  by (simp add: Let_def example_state_def example_driver_def mem_def mem_Insert_def)

section \<open>Blob storage: the identifier that comes with an error\<close>

text \<open>
  Claim C9. \<^verbatim>\<open>CreateGridFs\<close> generates the identifier before any storage call. When
  creating the file or writing to it fails, the generated identifier is returned with
  the error; when closing fails, the empty identifier is returned with the error; when
  nothing fails, the generated identifier is returned alone.
\<close>

theorem CreateGridFs_identifier_and_errors:
  "(let id' = fst (bson_NewObjectId d (db s)); w1 = snd (bson_NewObjectId d (db s))
    in (\<forall>err w2. gfs_Create d name w1 = (Inl err, w2) \<longrightarrow>
          CreateGridFs d name data s =
            ((id', Some err),
             s\<lparr>db := w2, trace := trace s @ [NewObjectIdCall, GridFSCreateCall name]\<rparr>)) \<and>
       (\<forall>fs w2 err w4.
          gfs_Create d name w1 = (Inr fs, w2) \<and>
          fs_Write d fs data (snd (fs_SetId d fs id' w2)) = (Some err, w4) \<longrightarrow>
          CreateGridFs d name data s =
            ((id', Some err),
             s\<lparr>db := w4,
               trace := trace s @ [NewObjectIdCall, GridFSCreateCall name, SetIdCall fs id', WriteCall fs data]\<rparr>)) \<and>
       (\<forall>fs w2 w4 err w5.
          gfs_Create d name w1 = (Inr fs, w2) \<and>
          fs_Write d fs data (snd (fs_SetId d fs id' w2)) = (None, w4) \<and>
          fs_Close d fs w4 = (Some err, w5) \<longrightarrow>
          CreateGridFs d name data s =
            (([], Some err),
             s\<lparr>db := w5,
               trace := trace s @ [NewObjectIdCall, GridFSCreateCall name, SetIdCall fs id', WriteCall fs data,
                                   CloseCall fs]\<rparr>)) \<and>
       (\<forall>fs w2 w4 w5.
          gfs_Create d name w1 = (Inr fs, w2) \<and>
          fs_Write d fs data (snd (fs_SetId d fs id' w2)) = (None, w4) \<and>
          fs_Close d fs w4 = (None, w5) \<longrightarrow>
          CreateGridFs d name data s =
            ((id', None),
             s\<lparr>db := w5,
               trace := trace s @ [NewObjectIdCall, GridFSCreateCall name, SetIdCall fs id', WriteCall fs data,
                                   CloseCall fs]\<rparr>)))"
  by (simp add: CreateGridFs_def invoke_eq Let_def split: prod.splits)

theorem CreateGridFs_identifier_and_errors_witness:
  "fst (CreateGridFs (example_driver\<lparr>gfs_Create := (\<lambda>name w. (Inl (DriverError ''create''), w))\<rparr>)
          ''a.txt'' ''hello'' (example_state [])) =
     (fst (bson_NewObjectId example_driver example_db), Some (DriverError ''create'')) \<and>
   fst (CreateGridFs (example_driver\<lparr>fs_Write := (\<lambda>fs data w. (Some (DriverError ''write''), w))\<rparr>)
          ''a.txt'' ''hello'' (example_state [])) =
     (fst (bson_NewObjectId example_driver example_db), Some (DriverError ''write'')) \<and>
   fst (CreateGridFs (example_driver\<lparr>fs_Close := (\<lambda>fs w. (Some (DriverError ''close''), w))\<rparr>)
          ''a.txt'' ''hello'' (example_state [])) =
     ([], Some (DriverError ''close'')) \<and>
   fst (CreateGridFs example_driver ''a.txt'' ''hello'' (example_state [])) =
     (fst (bson_NewObjectId example_driver example_db), None)"
  using
    CreateGridFs_identifier_and_errors [of "example_driver\<lparr>gfs_Create := (\<lambda>name w. (Inl (DriverError ''create''), w))\<rparr>"
      "example_state []" "''a.txt''" "''hello''"]
    CreateGridFs_identifier_and_errors [of "example_driver\<lparr>fs_Write := (\<lambda>fs data w. (Some (DriverError ''write''), w))\<rparr>"
      "example_state []" "''a.txt''" "''hello''"]
    CreateGridFs_identifier_and_errors [of "example_driver\<lparr>fs_Close := (\<lambda>fs w. (Some (DriverError ''close''), w))\<rparr>"
      "example_state []" "''a.txt''" "''hello''"]
    CreateGridFs_identifier_and_errors [of example_driver "example_state []" "''a.txt''" "''hello''"]
  by (simp add: Let_def example_state_def example_driver_def example_db_def mem_def
      mem_SetId_def mem_Write_def mem_Close_def)

section \<open>Single-result queries\<close>

lemma run_query_Find:
  "run_query matches order (co_Find c sel) w = filter (matches sel) (docs_of w c)"
  by (simp add: run_query_def co_Find_def Let_def)

text \<open>
  For every driver: \<^verbatim>\<open>FindOne\<close> on a filter map counts first; an error of the count is
  returned, a count above one gives \<^verbatim>\<open>mgo.ErrNotFound\<close> without a call of \<^verbatim>\<open>One\<close>,
  and otherwise the result of \<^verbatim>\<open>One\<close> is returned as it is.
\<close>

lemma FindOne_filter_map_any_driver:
  "FindOne d c (VBsonM m) s =
     (let q = co_Find c (VBsonM m);
          cnt = fst (fst (q_Count d q (db s)));
          err = snd (fst (q_Count d q (db s)));
          s1 = s\<lparr>db := snd (q_Count d q (db s)), trace := trace s @ [CountCall q]\<rparr>
      in case err of
           Some e \<Rightarrow> (Return (VNil, Some e), s1)
         | None \<Rightarrow>
             if cnt > 1 then (Return (VNil, Some ErrNotFound), s1)
             else (Return (fst (q_One d q (db s1))),
                   s1\<lparr>db := snd (q_One d q (db s1)), trace := trace s1 @ [OneCall q]\<rparr>))"
  by (simp add: FindOne_def invoke_eq Let_def split: prod.splits option.splits)

text \<open>
  Claim C1, as amended. On the in-memory store, for every filter map: when the filter
  matches exactly one document \<^verbatim>\<open>FindOne\<close> returns that document; when it matches
  none, \<^verbatim>\<open>FindOne\<close> returns \<^verbatim>\<open>mgo.ErrNotFound\<close>; when it matches two or more,
  \<^verbatim>\<open>FindOne\<close> returns no document and the same \<^verbatim>\<open>mgo.ErrNotFound\<close>, after the
  count alone.
\<close>

theorem FindOne_filter_map:
  "(let q = co_Find c (VBsonM m);
        found = filter (matches (VBsonM m)) (docs_of (db s) c)
    in (\<forall>doc. found = [doc] \<longrightarrow>
          FindOne (mem matches order) c (VBsonM m) s =
            (Return (VBsonM doc, None), s\<lparr>trace := trace s @ [CountCall q, OneCall q]\<rparr>)) \<and>
       (found = [] \<longrightarrow>
          FindOne (mem matches order) c (VBsonM m) s =
            (Return (VNil, Some ErrNotFound), s\<lparr>trace := trace s @ [CountCall q, OneCall q]\<rparr>)) \<and>
       (2 \<le> length found \<longrightarrow>
          FindOne (mem matches order) c (VBsonM m) s =
            (Return (VNil, Some ErrNotFound), s\<lparr>trace := trace s @ [CountCall q]\<rparr>)))"
  by (simp add: FindOne_filter_map_any_driver mem_def mem_One_def run_query_Find Let_def)

theorem FindOne_filter_map_witness:
  "fst (FindOne example_driver ''users'' (VBsonM [(''name'', VStr ''ann'')]) (example_state [])) =
     Return (VBsonM (hd example_users), None) \<and>
   fst (FindOne example_driver ''users'' (VBsonM [(''name'', VStr ''zed'')]) (example_state [])) =
     Return (VNil, Some ErrNotFound) \<and>
   FindOne example_driver ''users'' (VBsonM [(''name'', VStr ''bob'')]) (example_state []) =
     (Return (VNil, Some ErrNotFound),
      (example_state [])\<lparr>trace := [CountCall (co_Find ''users'' (VBsonM [(''name'', VStr ''bob'')]))]\<rparr>)"
  using
    FindOne_filter_map [of "''users''" "[(''name'', VStr ''ann'')]" eq_matches "example_state []" "\<lambda>keys docs. docs"]
    FindOne_filter_map [of "''users''" "[(''name'', VStr ''zed'')]" eq_matches "example_state []" "\<lambda>keys docs. docs"]
    FindOne_filter_map [of "''users''" "[(''name'', VStr ''bob'')]" eq_matches "example_state []" "\<lambda>keys docs. docs"]
  by (simp add: Let_def example_driver_def example_state_def example_db_def example_users_def docs_of_def)

text \<open>
  Claim C1 as stated fails: with two users named bob the error returned is
  \<^verbatim>\<open>mgo.ErrNotFound\<close>, whose kind is \<open>NotFound\<close>, not \<open>AmbiguousMatch\<close>.
\<close>

theorem FindOne_two_matches_counterexample:
  "length (filter (eq_matches (VBsonM [(''name'', VStr ''bob'')])) (docs_of example_db ''users'')) = 2 \<and>
   fst (FindOne example_driver ''users'' (VBsonM [(''name'', VStr ''bob'')]) (example_state [])) =
     Return (VNil, Some ErrNotFound) \<and>
   kind_of_error ErrNotFound = NotFound \<and>
   kind_of_error ErrNotFound \<noteq> AmbiguousMatch"
  by (simp add: FindOne_filter_map_any_driver Let_def example_driver_def example_state_def example_db_def
      example_users_def docs_of_def mem_def mem_One_def run_query_Find)

section \<open>Paging\<close>

lemma run_query_mem:
  "run_query matches order q w =
     (let sorted = (if q_sort q = [] then filter (matches (q_selector q)) (docs_of w (q_collection q))
                    else order (q_sort q) (filter (matches (q_selector q)) (docs_of w (q_collection q))))
      in if q_limit q = 0 then drop (nat (sint (q_skip q))) sorted
         else take (nat \<bar>sint (q_limit q)\<bar>) (drop (nat (sint (q_skip q))) sorted))"
  by (simp add: run_query_def Let_def)

lemma Sort_field_create_at: "Sort_field ''-create_at'' = Some ''create_at''"
  by (simp add: Sort_field_def)

lemma q_Sort_Return:
  assumes "\<forall>field \<in> set sortKeys. Sort_field field \<noteq> None"
  shows "q_Sort (if sortKeys = [] then [''-create_at''] else sortKeys) q =
           Return (q\<lparr>q_sort := (if sortKeys = [] then [''-create_at''] else sortKeys)\<rparr>)"
  using assms by (simp add: q_Sort_def list_all_iff Sort_field_create_at)

text \<open>
  The query that \<^verbatim>\<open>Find\<close> returns is bound to the session \<^verbatim>\<open>Find\<close> has closed on
  its way out: \<^verbatim>\<open>All\<close> on it panics, whatever the driver and the state.
\<close>

lemma Find_handle_is_closed:
  assumes "Find c query page sortKeys = Return (Some h, e)"
  shows "Query_All d h s = (Panic ''Session already closed'', s)"
  using assms
  by (auto simp: Find_def Query_All_def session_Close_def Let_def split: if_splits res.splits)

text \<open>
  Claim C7, as amended. For a non-nil filter and sort keys that the driver's
  \<^verbatim>\<open>Sort\<close> accepts (no key with an empty field name), \<^verbatim>\<open>Find\<close> builds, and
  \<^verbatim>\<open>FindDoc\<close> runs, the query on the filter, sorted by the given keys (by
  \<^verbatim>\<open>-create_at\<close> when none is given), with \<^verbatim>\<open>Skip(page.Offset)\<close> and
  \<^verbatim>\<open>Limit(page.Limit)\<close> applied exactly when \<^verbatim>\<open>page.Valid\<close> holds, the driver
  keeping of the offset its low 32 bits and of the limit what its \<^verbatim>\<open>Limit\<close> stores. On
  the in-memory store \<^verbatim>\<open>FindDoc\<close> then returns all sorted matches when the page is not
  valid, whatever offset and limit it carries, and the sorted matches after the first
  ten, at most five of them, for a valid page with offset 10 and limit 5. What running
  the query handed back by \<^verbatim>\<open>Find\<close> yields is not part of the statement.
\<close>

theorem Find_paging:
  assumes "query \<noteq> VNil"
      and "\<forall>field \<in> set sortKeys. Sort_field field \<noteq> None"
  shows "(let keys = (if sortKeys = [] then [''-create_at''] else sortKeys);
              base = (co_Find c query)\<lparr>q_sort := keys\<rparr>;
              q = (if Valid page then q_Limit (Limit page) (q_Skip (Offset page) base) else base);
              sorted = order keys (filter (matches query) (docs_of (db s) c))
          in (\<exists>h. Find c query page sortKeys = Return (Some h, None) \<and> the_query h = q) \<and>
             FindDoc d c query page sortKeys s' =
               (case invoke (AllCall q) (q_All d q) s' of (r, s1) \<Rightarrow> (Return r, s1)) \<and>
             q_skip q = (if Valid page then ucast (Offset page) else 0) \<and>
             q_limit q =
               (if \<not> Valid page then 0
                else if Limit page = 1 then 1
                else if sint (Limit page) = - 2147483648 then 2147483647
                else if sint (Limit page) < 0 then ucast (- Limit page)
                else ucast (Limit page)) \<and>
             (\<not> Valid page \<longrightarrow>
                fst (FindDoc (mem matches order) c query page sortKeys s) =
                  Return (map VBsonM sorted, None)) \<and>
             (Valid page \<and> Offset page = 10 \<and> Limit page = 5 \<longrightarrow>
                fst (FindDoc (mem matches order) c query page sortKeys s) =
                  Return (map VBsonM (take 5 (drop 10 sorted)), None)))"
proof -
  define keys where "keys = (if sortKeys = [] then [''-create_at''] else sortKeys)"
  define base where "base = (co_Find c query)\<lparr>q_sort := keys\<rparr>"
  define q where "q = (if Valid page then q_Limit (Limit page) (q_Skip (Offset page) base) else base)"
  define sorted where "sorted = order keys (filter (matches query) (docs_of (db s) c))"
  have keys_eq: "(if length sortKeys = 0 then sortKeys @ [''-create_at''] else sortKeys) = keys"
    by (simp add: keys_def)
  have srt: "q_Sort keys (co_Find c query) = Return base"
    unfolding keys_def base_def by (rule q_Sort_Return [OF assms(2)])
  have keys: "keys \<noteq> []"
    by (simp add: keys_def)
  have find: "\<exists>h. Find c query page sortKeys = Return (Some h, None) \<and> the_query h = q"
    unfolding Find_def Let_def keys_eq using assms(1)
    by (simp add: srt session_Close_def q_def)
  have doc: "FindDoc d c query page sortKeys s' =
               (case invoke (AllCall q) (q_All d q) s' of (r, s1) \<Rightarrow> (Return r, s1))"
    for d :: "'b driver" and s'
    unfolding FindDoc_def Let_def keys_eq using assms(1)
    by (simp add: srt q_def)
  have skip: "q_skip q = (if Valid page then ucast (Offset page) else 0)"
    by (simp add: q_def base_def q_Skip_def q_Limit_def co_Find_def)
  have lim: "q_limit q =
               (if \<not> Valid page then 0
                else if Limit page = 1 then 1
                else if sint (Limit page) = - 2147483648 then 2147483647
                else if sint (Limit page) < 0 then ucast (- Limit page)
                else ucast (Limit page))"
    by (simp add: q_def base_def q_Skip_def q_Limit_def co_Find_def)
  have all: "\<not> Valid page \<longrightarrow>
                fst (FindDoc (mem matches order) c query page sortKeys s) =
                  Return (map VBsonM sorted, None)"
    using keys
    by (simp add: doc invoke_eq mem_def run_query_mem q_def base_def sorted_def co_Find_def
        split: prod.splits)
  have page: "Valid page \<and> Offset page = 10 \<and> Limit page = 5 \<longrightarrow>
                fst (FindDoc (mem matches order) c query page sortKeys s) =
                  Return (map VBsonM (take 5 (drop 10 sorted)), None)"
    using keys
    by (simp add: doc invoke_eq mem_def run_query_mem q_def base_def sorted_def co_Find_def
        q_Skip_def q_Limit_def split: prod.splits)
  show ?thesis
    unfolding Let_def keys_def [symmetric] base_def [symmetric] q_def [symmetric]
      sorted_def [symmetric]
    using find doc [of d s'] skip lim all page by blast
qed

theorem Find_paging_witness:
  "VBsonM [] \<noteq> VNil \<and>
   fst (FindDoc example_driver ''posts'' (VBsonM []) \<lparr>Valid = False, Offset = 10, Limit = 5\<rparr>
          [''n''] (example_state [])) = Return (map VBsonM example_posts, None) \<and>
   fst (FindDoc example_driver ''posts'' (VBsonM []) \<lparr>Valid = True, Offset = 10, Limit = 5\<rparr>
          [''n''] (example_state [])) =
     Return ([VBsonM [(''n'', VInt 10)], VBsonM [(''n'', VInt 11)], VBsonM [(''n'', VInt 12)],
              VBsonM [(''n'', VInt 13)], VBsonM [(''n'', VInt 14)]], None)"
proof -
  have n: "VBsonM [] \<noteq> VNil"
    by simp
  have k: "\<forall>field \<in> set [''n'']. Sort_field field \<noteq> None"
    by (simp add: Sort_field_def)
  have docs: "docs_of (db (example_state [])) ''posts'' = example_posts"
    by (simp add: example_state_def example_db_def docs_of_def)
  have found: "filter (eq_matches (VBsonM [])) example_posts = example_posts"
    by (simp add: example_posts_def)
  have keys: "(if [''n''] = [] then [''-create_at''] else [''n'']) = [''n'']"
    by simp
  note A = Find_paging [OF n k, where c = "''posts''" and page = "\<lparr>Valid = False, Offset = 10, Limit = 5\<rparr>"
        and order = "\<lambda>keys docs. docs" and matches = eq_matches and s = "example_state []"
        and d = "undefined :: unit driver" and s' = undefined, unfolded Let_def keys docs found]
  note B = Find_paging [OF n k, where c = "''posts''" and page = "\<lparr>Valid = True, Offset = 10, Limit = 5\<rparr>"
        and order = "\<lambda>keys docs. docs" and matches = eq_matches and s = "example_state []"
        and d = "undefined :: unit driver" and s' = undefined, unfolded Let_def keys docs found]
  have va: "\<not> Valid \<lparr>Valid = False, Offset = 10, Limit = 5\<rparr>"
    by simp
  have vb: "Valid \<lparr>Valid = True, Offset = 10, Limit = 5\<rparr> \<and>
            Offset \<lparr>Valid = True, Offset = 10, Limit = 5\<rparr> = 10 \<and>
            Limit \<lparr>Valid = True, Offset = 10, Limit = 5\<rparr> = 5"
    by simp
  note a = A [THEN conjunct2, THEN conjunct2, THEN conjunct2, THEN conjunct2, THEN conjunct1,
      THEN mp, OF va]
  note b = B [THEN conjunct2, THEN conjunct2, THEN conjunct2, THEN conjunct2, THEN conjunct2,
      THEN mp, OF vb]
  have c: "take 5 (drop 10 example_posts) =
             [[(''n'', VInt 10)], [(''n'', VInt 11)], [(''n'', VInt 12)], [(''n'', VInt 13)], [(''n'', VInt 14)]]"
    by (simp add: example_posts_def)
  show ?thesis
    unfolding example_driver_def a b c using n by simp
qed

text \<open>
  Claim C7 as stated fails. With the sort key \<^verbatim>\<open>""\<close> both \<^verbatim>\<open>FindDoc\<close> and
  \<^verbatim>\<open>Find\<close> panic in the driver's \<^verbatim>\<open>Sort\<close>: no skip or limit is applied and nothing is
  returned. With a valid page of offset 4294967306 the query skips 10 documents, the low
  32 bits of the offset, so \<^verbatim>\<open>FindDoc\<close> returns five of the seventeen posts, where
  skipping \<^verbatim>\<open>page.Offset\<close> of them would leave none.
\<close>

theorem Find_paging_counterexample:
  "FindDoc example_driver ''posts'' (VBsonM []) \<lparr>Valid = True, Offset = 10, Limit = 5\<rparr>
     [''''] (example_state []) = (Panic ''Sort: empty field name'', example_state []) \<and>
   Find ''posts'' (VBsonM []) \<lparr>Valid = True, Offset = 10, Limit = 5\<rparr> [''''] =
     Panic ''Sort: empty field name'' \<and>
   length (docs_of (db (example_state [])) ''posts'') = 17 \<and>
   fst (FindDoc example_driver ''posts'' (VBsonM []) \<lparr>Valid = True, Offset = 4294967306, Limit = 5\<rparr>
          [''n''] (example_state [])) =
     Return ([VBsonM [(''n'', VInt 10)], VBsonM [(''n'', VInt 11)], VBsonM [(''n'', VInt 12)],
              VBsonM [(''n'', VInt 13)], VBsonM [(''n'', VInt 14)]], None)"
proof -
  have srt: "q_Sort [''''] q = Panic ''Sort: empty field name''" for q
    by (simp add: q_Sort_def Sort_field_def)
  have a: "FindDoc example_driver ''posts'' (VBsonM []) \<lparr>Valid = True, Offset = 10, Limit = 5\<rparr>
     [''''] (example_state []) = (Panic ''Sort: empty field name'', example_state [])"
    by (simp add: FindDoc_def srt)
  have b: "Find ''posts'' (VBsonM []) \<lparr>Valid = True, Offset = 10, Limit = 5\<rparr> [''''] =
     Panic ''Sort: empty field name''"
    by (simp add: Find_def srt)
  have docs: "docs_of (db (example_state [])) ''posts'' = example_posts"
    by (simp add: example_state_def example_db_def docs_of_def)
  have c: "length (docs_of (db (example_state [])) ''posts'') = 17"
    by (simp add: docs example_posts_def)
  have srt2: "q_Sort [''n''] q = Return (q\<lparr>q_sort := [''n'']\<rparr>)" for q
    by (simp add: q_Sort_def Sort_field_def)
  have q: "q_Limit 5 (q_Skip 4294967306 ((co_Find ''posts'' (VBsonM []))\<lparr>q_sort := [''n'']\<rparr>)) =
             \<lparr>q_collection = ''posts'', q_selector = VBsonM [], q_sort = [''n''], q_skip = 10, q_limit = 5\<rparr>"
    by (simp add: q_Limit_def q_Skip_def co_Find_def)
  have run: "run_query eq_matches (\<lambda>keys docs. docs)
               \<lparr>q_collection = ''posts'', q_selector = VBsonM [], q_sort = [''n''], q_skip = 10, q_limit = 5\<rparr>
               (db (example_state [])) = take 5 (drop 10 example_posts)"
    by (simp add: run_query_mem docs)
  have e: "take 5 (drop 10 example_posts) =
             [[(''n'', VInt 10)], [(''n'', VInt 11)], [(''n'', VInt 12)], [(''n'', VInt 13)], [(''n'', VInt 14)]]"
    by (simp add: example_posts_def)
  have d: "fst (FindDoc example_driver ''posts'' (VBsonM []) \<lparr>Valid = True, Offset = 4294967306, Limit = 5\<rparr>
          [''n''] (example_state [])) =
     Return ([VBsonM [(''n'', VInt 10)], VBsonM [(''n'', VInt 11)], VBsonM [(''n'', VInt 12)],
              VBsonM [(''n'', VInt 13)], VBsonM [(''n'', VInt 14)]], None)"
    by (simp add: FindDoc_def srt2 q invoke_eq example_driver_def mem_def run e)
  show ?thesis
    using a b c d by simp
qed

section \<open>Soft removal\<close>

lemma update_first_Some:
  "update_first P f ds = Some ds' \<Longrightarrow> \<exists>j<length ds. P (ds ! j) \<and> ds' = ds[j := f (ds ! j)]"
proof (induction ds arbitrary: ds')
  case Nil
  then show ?case by simp
next
  case (Cons doc ds)
  show ?case
  proof (cases "P doc")
    case True
    with Cons.prems have "ds' = (doc # ds)[0 := f ((doc # ds) ! 0)]"
      by simp
    with True show ?thesis
      by (intro exI [of _ 0]) simp
  next
    case False
    with Cons.prems obtain ds1 where r: "update_first P f ds = Some ds1" and d: "ds' = doc # ds1"
      by (auto split: option.splits)
    from Cons.IH [OF r] obtain j where j: "j < length ds" "P (ds ! j)" "ds1 = ds[j := f (ds ! j)]"
      by blast
    then show ?thesis
      using d by (intro exI [of _ "Suc j"]) simp
  qed
qed

lemma docs_of_put_docs:
  "docs_of (put_docs c ds w) c' = (if c' = c then ds else docs_of w c')"
  by (simp add: docs_of_def put_docs_def update_conv')

lemma mem_Update_docs:
  "docs_of (snd (mem_Update matches c sel upd w)) c = docs_of w c \<or>
   (\<exists>j<length (docs_of w c).
      docs_of (snd (mem_Update matches c sel upd w)) c =
        (docs_of w c)[j := apply_update upd (docs_of w c ! j)])"
proof (cases "update_first (matches sel) (apply_update upd) (docs_of w c)")
  case None
  then show ?thesis
    by (simp add: mem_Update_def)
next
  case (Some ds')
  from update_first_Some [OF Some] obtain j where
    "j < length (docs_of w c)" "ds' = (docs_of w c)[j := apply_update upd (docs_of w c ! j)]"
    by blast
  with Some show ?thesis
    by (auto simp: mem_Update_def docs_of_put_docs)
qed

lemma apply_update_soft_delete:
  "map_of (apply_update (VBsonM [(''$set'', VBsonM [(''modify_at'', t1), (''delete_at'', t2),
                                                     (''is_delete'', VBool True)])]) doc) =
     (map_of doc)(''modify_at'' \<mapsto> t1, ''delete_at'' \<mapsto> t2, ''is_delete'' \<mapsto> VBool True)"
  by (simp add: apply_update_def update_conv')

lemma SoftRemoveDoc_eq:
  "SoftRemoveDoc d c selector s =
     (let t1 = fst (dao_Now d (db s)); w1 = snd (dao_Now d (db s));
          t2 = fst (dao_Now d w1); w2 = snd (dao_Now d w1);
          payload = VBsonM [(''$set'', VBsonM [(''modify_at'', t1), (''delete_at'', t2),
                                               (''is_delete'', VBool True)])]
      in if selector = VNil then (Some errNull, s)
         else (case selector of
                 VBsonM m \<Rightarrow> invoke (UpdateCall c m payload) (co_Update d c m payload) (s\<lparr>db := w2\<rparr>)
               | VObjectId i \<Rightarrow> invoke (UpdateIdCall c i payload) (co_UpdateId d c i payload) (s\<lparr>db := w2\<rparr>)
               | _ \<Rightarrow> (Some errUnSupportType, s\<lparr>db := w2\<rparr>)))"
  by (simp add: SoftRemoveDoc_def Now_eq Let_def split: val.splits)

lemma SoftRemoveDoc_mem_docs:
  assumes "selector = VBsonM m \<or> selector = VObjectId i"
  shows "docs_of (db (snd (SoftRemoveDoc (mem matches order) c selector s))) c = docs_of (db s) c \<or>
         (\<exists>j<length (docs_of (db s) c).
            docs_of (db (snd (SoftRemoveDoc (mem matches order) c selector s))) c =
              (docs_of (db s) c)
                [j := apply_update
                        (VBsonM [(''$set'', VBsonM [(''modify_at'', VInt (int (clock (db s)))),
                                                    (''delete_at'', VInt (int (Suc (clock (db s))))),
                                                    (''is_delete'', VBool True)])])
                        (docs_of (db s) c ! j)])"
proof -
  let ?w2 = "(db s)\<lparr>clock := Suc (Suc (clock (db s)))\<rparr>"
  let ?p = "VBsonM [(''$set'', VBsonM [(''modify_at'', VInt (int (clock (db s)))),
                                       (''delete_at'', VInt (int (Suc (clock (db s))))),
                                       (''is_delete'', VBool True)])]"
  have same: "docs_of ?w2 c = docs_of (db s) c"
    by (simp add: docs_of_def)
  from assms obtain sel where
    "db (snd (SoftRemoveDoc (mem matches order) c selector s)) = snd (mem_Update matches c sel ?p ?w2)"
    by (auto simp: SoftRemoveDoc_eq invoke_eq mem_def Let_def)
  then show ?thesis
    using mem_Update_docs [of matches c sel ?p ?w2]
    by (simp add: same)
qed

lemma soft_delete_doc:
  assumes "new = old \<or>
           map_of new = (map_of old)(''modify_at'' \<mapsto> t1, ''delete_at'' \<mapsto> t2, ''is_delete'' \<mapsto> VBool True)"
  shows "k \<noteq> ''modify_at'' \<and> k \<noteq> ''delete_at'' \<and> k \<noteq> ''is_delete'' \<longrightarrow> map_of new k = map_of old k"
    and "(\<forall>(k, v) \<in> set f. k \<noteq> ''modify_at'' \<and> k \<noteq> ''delete_at'' \<and> (k = ''is_delete'' \<longrightarrow> v = VBool True)) \<and>
         eq_matches (VBsonM f) old \<longrightarrow> eq_matches (VBsonM f) new"
proof -
  show "k \<noteq> ''modify_at'' \<and> k \<noteq> ''delete_at'' \<and> k \<noteq> ''is_delete'' \<longrightarrow> map_of new k = map_of old k"
    using assms by auto
  show "(\<forall>(k, v) \<in> set f. k \<noteq> ''modify_at'' \<and> k \<noteq> ''delete_at'' \<and> (k = ''is_delete'' \<longrightarrow> v = VBool True)) \<and>
         eq_matches (VBsonM f) old \<longrightarrow> eq_matches (VBsonM f) new"
  proof (intro impI, elim conjE)
    assume ok: "\<forall>(k, v) \<in> set f. k \<noteq> ''modify_at'' \<and> k \<noteq> ''delete_at'' \<and> (k = ''is_delete'' \<longrightarrow> v = VBool True)"
       and m: "eq_matches (VBsonM f) old"
    from assms show "eq_matches (VBsonM f) new"
    proof
      assume "new = old"
      with m show ?thesis by simp
    next
      assume upd: "map_of new = (map_of old)(''modify_at'' \<mapsto> t1, ''delete_at'' \<mapsto> t2, ''is_delete'' \<mapsto> VBool True)"
      have "map_of new k = Some v" if kv: "(k, v) \<in> set f" for k v
      proof -
        from ok kv have k: "k \<noteq> ''modify_at''" "k \<noteq> ''delete_at''" "k = ''is_delete'' \<longrightarrow> v = VBool True"
          by auto
        from m kv have o: "map_of old k = Some v"
          by (auto simp: list_all_iff)
        show ?thesis
        proof (cases "k = ''is_delete''")
          case True
          with k upd show ?thesis by simp
        next
          case False
          with k o upd show ?thesis by simp
        qed
      qed
      then show ?thesis
        by (auto simp: list_all_iff)
    qed
  qed
qed

text \<open>
  Claim C6, as amended. For a selector of a supported kind \<^verbatim>\<open>SoftRemoveDoc\<close> issues
  one call, an \<^verbatim>\<open>Update\<close> or \<^verbatim>\<open>UpdateId\<close> whose payload is \<^verbatim>\<open>$set\<close> of exactly
  \<^verbatim>\<open>modify_at\<close> and \<^verbatim>\<open>delete_at\<close> (two readings of the clock) and
  \<^verbatim>\<open>is_delete = true\<close>; it never issues a removal. On the in-memory store the
  collection then has as many documents as before and every document keeps every field
  other than those three. So a document gets the same verdict as before from every
  filter that reads none of the three fields, and a document that satisfied an equality
  filter still satisfies it, provided the filter asks nothing of \<^verbatim>\<open>modify_at\<close> and
  \<^verbatim>\<open>delete_at\<close> and asks of \<^verbatim>\<open>is_delete\<close>, if anything, that it be true.
\<close>

theorem SoftRemoveDoc_keeps_documents:
  "(let t1 = fst (dao_Now d (db s')); w1 = snd (dao_Now d (db s'));
        t2 = fst (dao_Now d w1); w2 = snd (dao_Now d w1);
        payload = VBsonM [(''$set'', VBsonM [(''modify_at'', t1), (''delete_at'', t2),
                                             (''is_delete'', VBool True)])]
    in SoftRemoveDoc d c (VBsonM m) s' =
         invoke (UpdateCall c m payload) (co_Update d c m payload) (s'\<lparr>db := w2\<rparr>) \<and>
       SoftRemoveDoc d c (VObjectId i) s' =
         invoke (UpdateIdCall c i payload) (co_UpdateId d c i payload) (s'\<lparr>db := w2\<rparr>)) \<and>
   (\<forall>selector. selector = VBsonM m \<or> selector = VObjectId i \<longrightarrow>
      (let old = docs_of (db s) c;
           new = docs_of (db (snd (SoftRemoveDoc (mem matches order) c selector s))) c
       in length new = length old \<and>
          (\<forall>j<length old.
             (\<forall>k. k \<noteq> ''modify_at'' \<and> k \<noteq> ''delete_at'' \<and> k \<noteq> ''is_delete'' \<longrightarrow>
                  map_of (new ! j) k = map_of (old ! j) k) \<and>
             (\<forall>P. (\<forall>x y. (\<forall>k. k \<noteq> ''modify_at'' \<and> k \<noteq> ''delete_at'' \<and> k \<noteq> ''is_delete'' \<longrightarrow>
                               map_of x k = map_of y k) \<longrightarrow> (P x \<longleftrightarrow> P y)) \<longrightarrow>
                  (P (new ! j) \<longleftrightarrow> P (old ! j))) \<and>
             (\<forall>f. (\<forall>(k, v) \<in> set f. k \<noteq> ''modify_at'' \<and> k \<noteq> ''delete_at'' \<and>
                                     (k = ''is_delete'' \<longrightarrow> v = VBool True)) \<and>
                  eq_matches (VBsonM f) (old ! j) \<longrightarrow> eq_matches (VBsonM f) (new ! j)))))"
proof (intro conjI allI impI)
  show "let t1 = fst (dao_Now d (db s')); w1 = snd (dao_Now d (db s'));
        t2 = fst (dao_Now d w1); w2 = snd (dao_Now d w1);
        payload = VBsonM [(''$set'', VBsonM [(''modify_at'', t1), (''delete_at'', t2),
                                             (''is_delete'', VBool True)])]
    in SoftRemoveDoc d c (VBsonM m) s' =
         invoke (UpdateCall c m payload) (co_Update d c m payload) (s'\<lparr>db := w2\<rparr>) \<and>
       SoftRemoveDoc d c (VObjectId i) s' =
         invoke (UpdateIdCall c i payload) (co_UpdateId d c i payload) (s'\<lparr>db := w2\<rparr>)"
    by (simp add: SoftRemoveDoc_eq Let_def)
next
  fix selector
  assume sel: "selector = VBsonM m \<or> selector = VObjectId i"
  let ?old = "docs_of (db s) c"
  let ?new = "docs_of (db (snd (SoftRemoveDoc (mem matches order) c selector s))) c"
  let ?t1 = "VInt (int (clock (db s)))" and ?t2 = "VInt (int (Suc (clock (db s))))"
  from SoftRemoveDoc_mem_docs [OF sel, of matches order c s]
  have len: "length ?new = length ?old"
    and rel: "\<forall>j<length ?old. ?new ! j = ?old ! j \<or>
                map_of (?new ! j) =
                  (map_of (?old ! j))(''modify_at'' \<mapsto> ?t1, ''delete_at'' \<mapsto> ?t2, ''is_delete'' \<mapsto> VBool True)"
    by (auto simp: nth_list_update apply_update_soft_delete)
  show "let old = ?old; new = ?new
        in length new = length old \<and>
          (\<forall>j<length old.
             (\<forall>k. k \<noteq> ''modify_at'' \<and> k \<noteq> ''delete_at'' \<and> k \<noteq> ''is_delete'' \<longrightarrow>
                  map_of (new ! j) k = map_of (old ! j) k) \<and>
             (\<forall>P. (\<forall>x y. (\<forall>k. k \<noteq> ''modify_at'' \<and> k \<noteq> ''delete_at'' \<and> k \<noteq> ''is_delete'' \<longrightarrow>
                               map_of x k = map_of y k) \<longrightarrow> (P x \<longleftrightarrow> P y)) \<longrightarrow>
                  (P (new ! j) \<longleftrightarrow> P (old ! j))) \<and>
             (\<forall>f. (\<forall>(k, v) \<in> set f. k \<noteq> ''modify_at'' \<and> k \<noteq> ''delete_at'' \<and>
                                     (k = ''is_delete'' \<longrightarrow> v = VBool True)) \<and>
                  eq_matches (VBsonM f) (old ! j) \<longrightarrow> eq_matches (VBsonM f) (new ! j)))"
    unfolding Let_def
  proof (intro conjI allI impI)
    show "length ?new = length ?old" by (rule len)
  next
    fix j k
    assume j: "j < length ?old"
       and k: "k \<noteq> ''modify_at'' \<and> k \<noteq> ''delete_at'' \<and> k \<noteq> ''is_delete''"
    from rel j have r: "?new ! j = ?old ! j \<or>
                map_of (?new ! j) =
                  (map_of (?old ! j))(''modify_at'' \<mapsto> ?t1, ''delete_at'' \<mapsto> ?t2, ''is_delete'' \<mapsto> VBool True)"
      by blast
    from soft_delete_doc(1) [OF r, of k] k show "map_of (?new ! j) k = map_of (?old ! j) k"
      by blast
  next
    fix j and P :: "gomap \<Rightarrow> bool"
    assume j: "j < length ?old"
       and P: "\<forall>x y. (\<forall>k. k \<noteq> ''modify_at'' \<and> k \<noteq> ''delete_at'' \<and> k \<noteq> ''is_delete'' \<longrightarrow>
                               map_of x k = map_of y k) \<longrightarrow> (P x \<longleftrightarrow> P y)"
    from rel j have r: "?new ! j = ?old ! j \<or>
                map_of (?new ! j) =
                  (map_of (?old ! j))(''modify_at'' \<mapsto> ?t1, ''delete_at'' \<mapsto> ?t2, ''is_delete'' \<mapsto> VBool True)"
      by blast
    have "\<forall>k. k \<noteq> ''modify_at'' \<and> k \<noteq> ''delete_at'' \<and> k \<noteq> ''is_delete'' \<longrightarrow>
               map_of (?new ! j) k = map_of (?old ! j) k"
      using soft_delete_doc(1) [OF r] by blast
    with P show "P (?new ! j) \<longleftrightarrow> P (?old ! j)"
      by blast
  next
    fix j f
    assume j: "j < length ?old"
       and f: "(\<forall>(k, v) \<in> set f. k \<noteq> ''modify_at'' \<and> k \<noteq> ''delete_at'' \<and>
                                     (k = ''is_delete'' \<longrightarrow> v = VBool True)) \<and>
                  eq_matches (VBsonM f) (?old ! j)"
    from rel j have r: "?new ! j = ?old ! j \<or>
                map_of (?new ! j) =
                  (map_of (?old ! j))(''modify_at'' \<mapsto> ?t1, ''delete_at'' \<mapsto> ?t2, ''is_delete'' \<mapsto> VBool True)"
      by blast
    from soft_delete_doc(2) [OF r, of f] f show "eq_matches (VBsonM f) (?new ! j)"
      by blast
  qed
qed

theorem SoftRemoveDoc_keeps_documents_witness:
  "trace (snd (SoftRemoveDoc example_driver ''users'' (VObjectId ''000000000001'') (example_state []))) =
     [UpdateIdCall ''users'' ''000000000001''
        (VBsonM [(''$set'', VBsonM [(''modify_at'', VInt 0), (''delete_at'', VInt 1),
                                    (''is_delete'', VBool True)])])] \<and>
   length (docs_of (db (snd (SoftRemoveDoc example_driver ''users'' (VObjectId ''000000000001'')
                               (example_state [])))) ''users'') = 3 \<and>
   map_of (docs_of (db (snd (SoftRemoveDoc example_driver ''users'' (VObjectId ''000000000001'')
                               (example_state [])))) ''users'' ! 0) ''_id'' =
     Some (VObjectId ''000000000001'') \<and>
   eq_matches (VBsonM [(''name'', VStr ''ann'')])
     (docs_of (db (snd (SoftRemoveDoc example_driver ''users'' (VObjectId ''000000000001'')
                               (example_state [])))) ''users'' ! 0)"
proof -
  let ?new = "docs_of (db (snd (SoftRemoveDoc (mem eq_matches (\<lambda>keys docs. docs)) ''users''
                                  (VObjectId ''000000000001'') (example_state [])))) ''users''"
  note T = SoftRemoveDoc_keeps_documents [where d = example_driver and s' = "example_state []"
      and c = "''users''" and m = "[]" and i = "''000000000001''" and s = "example_state []"
      and matches = eq_matches and order = "\<lambda>keys docs. docs"]
  have old: "docs_of (db (example_state [])) ''users'' = example_users"
    by (simp add: example_state_def example_db_def docs_of_def)
  from T have call:
    "SoftRemoveDoc example_driver ''users'' (VObjectId ''000000000001'') (example_state []) =
       invoke (UpdateIdCall ''users'' ''000000000001''
                 (VBsonM [(''$set'', VBsonM [(''modify_at'', VInt 0), (''delete_at'', VInt 1),
                                             (''is_delete'', VBool True)])]))
              (co_UpdateId example_driver ''users'' ''000000000001''
                 (VBsonM [(''$set'', VBsonM [(''modify_at'', VInt 0), (''delete_at'', VInt 1),
                                             (''is_delete'', VBool True)])]))
              ((example_state [])\<lparr>db := example_db\<lparr>clock := Suc (Suc 0)\<rparr>\<rparr>)"
    by (simp add: Let_def example_driver_def mem_def example_state_def example_db_def)
  have tr: "trace (snd (SoftRemoveDoc example_driver ''users'' (VObjectId ''000000000001'') (example_state []))) =
     [UpdateIdCall ''users'' ''000000000001''
        (VBsonM [(''$set'', VBsonM [(''modify_at'', VInt 0), (''delete_at'', VInt 1),
                                    (''is_delete'', VBool True)])])]"
    unfolding call by (simp add: trace_invoke example_state_def)
  have sel: "VObjectId ''000000000001'' = VBsonM [] \<or>
             VObjectId ''000000000001'' = VObjectId ''000000000001''"
    by simp
  note U = T [THEN conjunct2, THEN spec, THEN mp, OF sel, unfolded Let_def old]
  have len: "length ?new = 3"
    using U [THEN conjunct1] by (simp add: example_users_def)
  have j0: "0 < length example_users"
    by (simp add: example_users_def)
  note J = U [THEN conjunct2, THEN spec, THEN mp, OF j0]
  have "map_of (?new ! 0) ''_id'' = map_of (example_users ! 0) ''_id''"
    using J [THEN conjunct1, THEN spec, of "''_id''"] by simp
  then have idf: "map_of (?new ! 0) ''_id'' = Some (VObjectId ''000000000001'')"
    by (simp add: example_users_def)
  have f: "(\<forall>(k, v) \<in> set [(''name'', VStr ''ann'')]. k \<noteq> ''modify_at'' \<and> k \<noteq> ''delete_at'' \<and>
                             (k = ''is_delete'' \<longrightarrow> v = VBool True)) \<and>
        eq_matches (VBsonM [(''name'', VStr ''ann'')]) (example_users ! 0)"
    by (simp add: example_users_def)
  have flt: "eq_matches (VBsonM [(''name'', VStr ''ann'')]) (?new ! 0)"
    by (rule J [THEN conjunct2, THEN conjunct2, THEN spec, THEN mp, OF f])
  show ?thesis
    using tr len idf flt by (simp add: example_driver_def)
qed

text \<open>
  Claim C6 as stated fails: the filter \<^verbatim>\<open>{"modify_at": "T1"}\<close> does not exclude
  \<^verbatim>\<open>is_delete = true\<close> and is satisfied by the first user; after that user is
  soft-removed by identifier the document is still stored, but it no longer satisfies
  the filter, because the call has overwritten \<^verbatim>\<open>modify_at\<close>.
\<close>

theorem SoftRemoveDoc_filter_on_modify_at_counterexample:
  "fst (SoftRemoveDoc example_driver ''users'' (VObjectId ''000000000001'') (example_state [])) = None \<and>
   map_of [(''modify_at'', VStr ''T1'')] ''is_delete'' = None \<and>
   eq_matches (VBsonM [(''modify_at'', VStr ''T1'')]) (docs_of (db (example_state [])) ''users'' ! 0) \<and>
   \<not> eq_matches (VBsonM [(''modify_at'', VStr ''T1'')])
       (docs_of (db (snd (SoftRemoveDoc example_driver ''users'' (VObjectId ''000000000001'')
                            (example_state [])))) ''users'' ! 0) \<and>
   map_of (docs_of (db (snd (SoftRemoveDoc example_driver ''users'' (VObjectId ''000000000001'')
                            (example_state [])))) ''users'' ! 0) ''_id'' =
     Some (VObjectId ''000000000001'')"
  by (simp add: SoftRemoveDoc_eq invoke_eq Let_def example_driver_def example_state_def example_db_def
      example_users_def mem_def mem_Update_def docs_of_def put_docs_def apply_update_def)

end
